theory Spec2Isabelle
  imports Main "HOL-Library.Word"
begin

section \<open>Python values\<close>

text \<open>
  The values \<^verbatim>\<open>json.load\<close> returns and a metadata mapping holds. A dictionary is an
  association list in insertion order, read with \<open>map_of\<close> (a Python dictionary has each
  key once). A float is its IEEE-754 binary64 bit pattern: only its truth value matters
  here, and \<^verbatim>\<open>bool(x)\<close> is \<^verbatim>\<open>x != 0.0\<close>, false for the two zeros only.
\<close>

datatype pyval =
    PNone
  | PBool bool
  | PInt int
  | PFloat "64 word"
  | PStr string
  | PList "pyval list"
  | PDict "(string \<times> pyval) list"

type_synonym pydict = "(string \<times> pyval) list"

fun truthy :: "pyval \<Rightarrow> bool" where
  "truthy PNone = False"
| "truthy (PBool b) = b"
| "truthy (PInt i) = (i \<noteq> 0)"
| "truthy (PFloat w) = (w \<noteq> 0 \<and> w \<noteq> 0x8000000000000000)"
| "truthy (PStr s) = (s \<noteq> [])"
| "truthy (PList xs) = (xs \<noteq> [])"
| "truthy (PDict kvs) = (kvs \<noteq> [])"

text \<open>\<^verbatim>\<open>x or y\<close>: the left operand when it is truthy, the right one otherwise.\<close>

definition py_or :: "pyval \<Rightarrow> pyval \<Rightarrow> pyval" where
  "py_or x y = (if truthy x then x else y)"

text \<open>\<^verbatim>\<open>d.get(k)\<close>: the value stored under the key, \<^verbatim>\<open>None\<close> when the key is absent.\<close>

definition dict_get :: "pydict \<Rightarrow> string \<Rightarrow> pyval" where
  "dict_get d k = (case map_of d k of None \<Rightarrow> PNone | Some v \<Rightarrow> v)"

text \<open>
  The exceptions of the code paths modelled (Python's own names, and the validation error
  of the document constructor), followed by the error kinds of the external collaborators
  (the crawler and the vector index client).
\<close>

datatype error =
    OSError
  | JSONDecodeError
  | TypeError
  | AttributeError
  | KeyError
  | ValidationError
  | CrawlFailed
  | ConnectionError
  | CollectionNotFound
  | CommitFailed

text \<open>
  \<^verbatim>\<open>for doc in local_data\<close>: a list yields its elements, a dictionary its keys, a string
  its characters as one-character strings; anything else is not iterable.
\<close>

fun py_iter :: "pyval \<Rightarrow> error + pyval list" where
  "py_iter (PList xs) = Inr xs"
| "py_iter (PDict kvs) = Inr (map (\<lambda>kv. PStr (fst kv)) kvs)"
| "py_iter (PStr s) = Inr (map (\<lambda>c. PStr [c]) s)"
| "py_iter PNone = Inl TypeError"
| "py_iter (PBool b) = Inl TypeError"
| "py_iter (PInt i) = Inl TypeError"
| "py_iter (PFloat w) = Inl TypeError"

text \<open>
  A list comprehension whose element expression can raise: the elements are evaluated
  in order and the first exception ends the comprehension.
\<close>

fun comprehension :: "('a \<Rightarrow> error + 'b) \<Rightarrow> 'a list \<Rightarrow> error + 'b list" where
  "comprehension f [] = Inr []"
| "comprehension f (x # xs) =
     (case f x of
        Inl e \<Rightarrow> Inl e
      | Inr y \<Rightarrow> (case comprehension f xs of Inl e \<Rightarrow> Inl e | Inr ys \<Rightarrow> Inr (y # ys)))"

section \<open>Strings and paths\<close>

text \<open>
  \<^verbatim>\<open>s.rsplit(sep, 1)\<close> for a one-character separator: at most one split, at the last
  occurrence of the separator; a string without the separator comes back alone.
\<close>

definition rsplit1 :: "string \<Rightarrow> char \<Rightarrow> string list" where
  "rsplit1 s sep =
     (if sep \<in> set s
      then [rev (tl (dropWhile (\<lambda>c. c \<noteq> sep) (rev s))), rev (takeWhile (\<lambda>c. c \<noteq> sep) (rev s))]
      else [s])"

text \<open>\<^verbatim>\<open>s.replace(old, new)\<close> for one-character \<^verbatim>\<open>old\<close> and \<^verbatim>\<open>new\<close>.\<close>

definition str_replace :: "string \<Rightarrow> char \<Rightarrow> char \<Rightarrow> string" where
  "str_replace s old new = map (\<lambda>c. if c = old then new else c) s"

text \<open>
  \<^verbatim>\<open>os.path.join(a, b)\<close> on POSIX: an absolute second component replaces the first; a
  separator is inserted unless the first component is empty or already ends with one.
\<close>

fun ends_with_sep :: "string \<Rightarrow> bool" where
  "ends_with_sep [] = False"
| "ends_with_sep [c] = (c = CHR ''/'')"
| "ends_with_sep (c # cs) = ends_with_sep cs"

fun os_path_join :: "string \<Rightarrow> string \<Rightarrow> string" where
  "os_path_join a (CHR ''/'' # b) = CHR ''/'' # b"
| "os_path_join a b = (if a = [] \<or> ends_with_sep a then a @ b else a @ ''/'' @ b)"

section \<open>Documents, the world and the external collaborators\<close>

text \<open>\<^verbatim>\<open>langchain.schema.Document\<close>: the content and the metadata mapping.\<close>

record Document =
  page_content :: pyval
  metadata :: pydict

text \<open>
  Modelled from the spec: the constructor \<^verbatim>\<open>Document(page_content=..., metadata=...)\<close>
  (\<^verbatim>\<open>langchain\<close>, an external library). The content of a document is a string; the
  constructor refuses any other content with the library's validation error, and takes
  the metadata mapping as it is.
\<close>

definition Document_init :: "pyval \<Rightarrow> pydict \<Rightarrow> error + Document" where
  "Document_init content md =
     (case content of
        PStr s \<Rightarrow> Inr \<lparr>page_content = PStr s, metadata = md\<rparr>
      | _ \<Rightarrow> Inl ValidationError)"

text \<open>The handle the \<^verbatim>\<open>Milvus\<close> constructor returns: the connection and the collection.\<close>

record Milvus_store =
  uri :: string
  collection :: string

text \<open>The calls the code makes to the vector index client, with their arguments.\<close>

datatype client_call =
    Connect string string bool
  | AddDocuments string string "Document list" "string list"

text \<open>
  Everything outside the module that its functions read or change:
  \<^item> \<open>files\<close>: what \<^verbatim>\<open>open\<close> followed by \<^verbatim>\<open>json.load\<close> gives for a path (the parsed
    value, or the exception of an unreadable or unparseable file);
  \<^item> \<open>web\<close>: what the crawler harvests from a URL;
  \<^item> \<open>heap\<close>, \<open>next_ref\<close>: the store of the crawled \<^verbatim>\<open>Document\<close> objects, by address
    (the live path assigns to their \<^verbatim>\<open>metadata\<close> attribute);
  \<^item> \<open>uuid_source\<close>, \<open>uuid_drawn\<close>: the \<open>k\<close>-th call of \<^verbatim>\<open>str(uuid4())\<close> returns
    \<open>uuid_source k\<close>, and \<open>uuid_drawn\<close> calls have been made so far;
  \<^item> \<open>reachable\<close>: the index endpoints that answer;
  \<^item> \<open>collections\<close>: the entries (identifier, document) of each collection of each
    endpoint, in insertion order; \<open>None\<close> for a collection that does not exist;
  \<^item> \<open>calls\<close>: the calls made to the index client so far, in order.
  Embedding vectors (floating point, computed by an external model) and what
  \<^verbatim>\<open>print\<close> writes are left out.
\<close>

record world =
  files :: "string \<Rightarrow> error + pyval"
  web :: "string \<Rightarrow> error + Document list"
  heap :: "nat \<Rightarrow> Document"
  next_ref :: nat
  uuid_source :: "nat \<Rightarrow> string"
  uuid_drawn :: nat
  reachable :: "string \<Rightarrow> bool"
  collections :: "string \<times> string \<Rightarrow> (string \<times> Document) list option"
  calls :: "client_call list"

definition entries :: "world \<Rightarrow> string \<times> string \<Rightarrow> (string \<times> Document) list" where
  "entries w key = (case collections w key of None \<Rightarrow> [] | Some es \<Rightarrow> es)"

text \<open>
  Modelled from the spec: the crawler (\<^verbatim>\<open>crawl.crawl_web\<close>, a module of the repository
  that is not among the sources). It returns a sequence of records in the crawled shape,
  each a fresh \<^verbatim>\<open>Document\<close> object, or fails with \<open>CrawlFailed\<close>.
\<close>

definition crawl_web :: "string \<Rightarrow> world \<Rightarrow> (error + nat list) \<times> world" where
  "crawl_web URL w =
     (case web w URL of
        Inl e \<Rightarrow> (Inl e, w)
      | Inr docs \<Rightarrow>
          (Inr [next_ref w ..< next_ref w + length docs],
           w\<lparr>heap := (\<lambda>r. if next_ref w \<le> r \<and> r < next_ref w + length docs
                            then docs ! (r - next_ref w) else heap w r),
             next_ref := next_ref w + length docs\<rparr>))"

text \<open>
  Modelled from the spec: the identifiers. \<^verbatim>\<open>[str(uuid4()) for _ in range(n)]\<close> (lines
  69 and 113) calls Python's \<^verbatim>\<open>uuid4\<close>, which formats 128 bits of the operating system's
  randomness; the list is the next \<open>n\<close> values of the random source, whatever they are.
\<close>

definition uuid4_strs :: "nat \<Rightarrow> world \<Rightarrow> string list \<times> world" where
  "uuid4_strs n w =
     (map (uuid_source w) [uuid_drawn w ..< uuid_drawn w + n],
      w\<lparr>uuid_drawn := uuid_drawn w + n\<rparr>)"

text \<open>
  Modelled from the spec: the constructor of the vector index client
  (\<^verbatim>\<open>langchain_milvus.Milvus\<close>, an external library). It fails with \<open>ConnectionError\<close>
  when the endpoint does not answer. With \<^verbatim>\<open>drop_old=True\<close> an existing collection of
  that name is dropped (the source's own comment on the flag); without the flag nothing
  is created or deleted (the docstring of \<^verbatim>\<open>connect_to_milvus\<close>), and the collection is
  created by the first commit.
\<close>

definition Milvus :: "string \<Rightarrow> string \<Rightarrow> bool \<Rightarrow> world \<Rightarrow> (error + Milvus_store) \<times> world" where
  "Milvus URI_link collection_name drop_old w =
     (let w1 = w\<lparr>calls := calls w @ [Connect URI_link collection_name drop_old]\<rparr> in
      if \<not> reachable w URI_link then (Inl ConnectionError, w1)
      else (Inr \<lparr>uri = URI_link, collection = collection_name\<rparr>,
            if drop_old
            then w1\<lparr>collections := (collections w1)((URI_link, collection_name) := None)\<rparr>
            else w1))"

text \<open>
  Modelled from the spec: the canonical schema a committed document conforms to. The
  content is a string; the metadata has exactly the seven keys, each once; \<^verbatim>\<open>source\<close>,
  \<^verbatim>\<open>content_type\<close>, \<^verbatim>\<open>title\<close>, \<^verbatim>\<open>description\<close>, \<^verbatim>\<open>language\<close> and \<^verbatim>\<open>doc_name\<close> hold
  strings and \<^verbatim>\<open>start_index\<close> an integer the index can store (64 bits, signed).
\<close>

fun is_str :: "pyval \<Rightarrow> bool" where
  "is_str (PStr s) = True"
| "is_str v = False"

fun is_int64 :: "pyval \<Rightarrow> bool" where
  "is_int64 (PInt i) = (- (2 ^ 63) \<le> i \<and> i < 2 ^ 63)"
| "is_int64 v = False"

definition conforms :: "Document \<Rightarrow> bool" where
  "conforms doc \<longleftrightarrow>
     is_str (page_content doc) \<and>
     distinct (map fst (metadata doc)) \<and>
     set (map fst (metadata doc)) =
       {''source'', ''content_type'', ''title'', ''description'', ''language'', ''doc_name'',
        ''start_index''} \<and>
     list_all (\<lambda>k. is_str (dict_get (metadata doc) k))
       [''source'', ''content_type'', ''title'', ''description'', ''language'', ''doc_name''] \<and>
     is_int64 (dict_get (metadata doc) ''start_index'')"

text \<open>
  Modelled from the spec: the commit (\<^verbatim>\<open>Milvus.add_documents\<close>). Its preconditions are
  that there are as many identifiers as documents, that the identifiers of the batch are
  pairwise distinct (they are the primary keys), and that every document conforms to the
  canonical schema; it fails otherwise and stores nothing. On success the collection
  exists and holds, after what it held, every document of the batch with the identifier
  supplied for it.
\<close>

definition add_documents ::
  "Milvus_store \<Rightarrow> Document list \<Rightarrow> string list \<Rightarrow> world \<Rightarrow> (error + unit) \<times> world" where
  "add_documents vectorstore documents ids w =
     (let w1 = w\<lparr>calls := calls w @
                   [AddDocuments (uri vectorstore) (collection vectorstore) documents ids]\<rparr>;
          key = (uri vectorstore, collection vectorstore)
      in if length documents \<noteq> length ids \<or> \<not> distinct ids \<or> \<not> list_all conforms documents
         then (Inl CommitFailed, w1)
         else (Inr (),
               w1\<lparr>collections := (collections w1)(key \<mapsto> entries w1 key @ zip ids documents)\<rparr>))"

section \<open>The module: \<^verbatim>\<open>seed_data.py\<close>\<close>

definition load_data_from_local :: "string \<Rightarrow> string \<Rightarrow> world \<Rightarrow> error + pyval \<times> string" where
  "load_data_from_local filename directory w =
     (let file_path = os_path_join directory filename in
      case files w file_path of
        Inl e \<Rightarrow> Inl e
      | Inr data \<Rightarrow>
          Inr (data, str_replace (hd (rsplit1 filename CHR ''.'')) CHR ''_'' CHR '' ''))"

text \<open>
  The metadata dictionary both ingestion functions build (lines 53-61 and 102-110, the
  same display over a different source mapping \<open>m\<close>).
\<close>

definition metadata_dict :: "string \<Rightarrow> pydict \<Rightarrow> pydict" where
  "metadata_dict doc_name m =
     [(''source'', py_or (dict_get m ''source'') (PStr '''')),
      (''content_type'', py_or (dict_get m ''content_type'') (PStr ''text/plain'')),
      (''title'', py_or (dict_get m ''title'') (PStr '''')),
      (''description'', py_or (dict_get m ''description'') (PStr '''')),
      (''language'', py_or (dict_get m ''language'') (PStr ''en'')),
      (''doc_name'', PStr doc_name),
      (''start_index'', py_or (dict_get m ''start_index'') (PInt 0))]"

text \<open>
  The element expression of the comprehension of \<^verbatim>\<open>seed_milvus\<close>. The arguments are
  evaluated first: \<^verbatim>\<open>doc.get\<close> needs a dictionary (\<open>AttributeError\<close> on anything else),
  \<^verbatim>\<open>doc['metadata']\<close> needs the key (\<open>KeyError\<close>), and \<^verbatim>\<open>.get\<close> on the metadata needs
  a dictionary again. Then the constructor is called, and validates the content.
\<close>

definition make_document :: "string \<Rightarrow> pyval \<Rightarrow> error + Document" where
  "make_document doc_name doc =
     (case doc of
        PDict d \<Rightarrow>
          (case map_of d ''metadata'' of
             None \<Rightarrow> Inl KeyError
           | Some (PDict m) \<Rightarrow>
               Document_init (py_or (dict_get d ''page_content'') (PStr ''''))
                 (metadata_dict doc_name m)
           | Some _ \<Rightarrow> Inl AttributeError)
      | _ \<Rightarrow> Inl AttributeError)"

definition seed_milvus ::
  "string \<Rightarrow> string \<Rightarrow> string \<Rightarrow> string \<Rightarrow> world \<Rightarrow> (error + Milvus_store) \<times> world" where
  "seed_milvus URI_link collection_name filename directory w =
     (case load_data_from_local filename directory w of
        Inl e \<Rightarrow> (Inl e, w)
      | Inr (local_data, doc_name) \<Rightarrow>
          (case py_iter local_data of
             Inl e \<Rightarrow> (Inl e, w)
           | Inr records \<Rightarrow>
               (case comprehension (make_document doc_name) records of
                  Inl e \<Rightarrow> (Inl e, w)
                | Inr documents \<Rightarrow>
                    (case uuid4_strs (length documents) w of
                       (uuids, w1) \<Rightarrow>
                         (case Milvus URI_link collection_name True w1 of
                            (Inl e, w2) \<Rightarrow> (Inl e, w2)
                          | (Inr vectorstore, w2) \<Rightarrow>
                              (case add_documents vectorstore documents uuids w2 of
                                 (Inl e, w3) \<Rightarrow> (Inl e, w3)
                               | (Inr u, w3) \<Rightarrow> (Inr vectorstore, w3)))))))"

text \<open>
  The body of the loop of \<^verbatim>\<open>seed_milvus_live\<close>: the object gets a new metadata
  dictionary, built from the one it had, assigned to its \<^verbatim>\<open>metadata\<close> attribute.
\<close>

definition assign_metadata :: "string \<Rightarrow> Document \<Rightarrow> Document" where
  "assign_metadata doc_name doc = doc\<lparr>metadata := metadata_dict doc_name (metadata doc)\<rparr>"

text \<open>The loop itself, over the addresses of the crawled objects, on the object store.\<close>

fun update_metadata :: "string \<Rightarrow> nat list \<Rightarrow> (nat \<Rightarrow> Document) \<Rightarrow> nat \<Rightarrow> Document" where
  "update_metadata doc_name [] h = h"
| "update_metadata doc_name (r # rs) h =
     update_metadata doc_name rs (h(r := assign_metadata doc_name (h r)))"

definition seed_milvus_live ::
  "string \<Rightarrow> string \<Rightarrow> string \<Rightarrow> string \<Rightarrow> world \<Rightarrow> (error + Milvus_store) \<times> world" where
  "seed_milvus_live URL URI_link collection_name doc_name w =
     (case crawl_web URL w of
        (Inl e, w1) \<Rightarrow> (Inl e, w1)
      | (Inr documents, w1) \<Rightarrow>
          (let w2 = w1\<lparr>heap := update_metadata doc_name documents (heap w1)\<rparr> in
           case uuid4_strs (length documents) w2 of
             (uuids, w3) \<Rightarrow>
               (case Milvus URI_link collection_name False w3 of
                  (Inl e, w4) \<Rightarrow> (Inl e, w4)
                | (Inr vectorstore, w4) \<Rightarrow>
                    (case add_documents vectorstore (map (heap w4) documents) uuids w4 of
                       (Inl e, w5) \<Rightarrow> (Inl e, w5)
                     | (Inr u, w5) \<Rightarrow> (Inr vectorstore, w5)))))"

definition connect_to_milvus :: "string \<Rightarrow> string \<Rightarrow> world \<Rightarrow> (error + Milvus_store) \<times> world" where
  "connect_to_milvus URI_link collection_name w = Milvus URI_link collection_name False w"

section \<open>The vocabulary of the specification\<close>

text \<open>
  The six optional metadata fields and the default the specification documents for each:
  \<^verbatim>\<open>content_type="text/plain"\<close>, \<^verbatim>\<open>language="en"\<close>, \<^verbatim>\<open>start_index=0\<close>, and the empty
  string for \<^verbatim>\<open>source\<close>, \<^verbatim>\<open>title\<close> and \<^verbatim>\<open>description\<close>.
\<close>

definition fixed_keys :: "string list" where
  "fixed_keys = [''source'', ''content_type'', ''title'', ''description'', ''language'', ''start_index'']"

definition field_default :: "string \<Rightarrow> pyval" where
  "field_default k =
     (if k = ''content_type'' then PStr ''text/plain''
      else if k = ''language'' then PStr ''en''
      else if k = ''start_index'' then PInt 0
      else PStr '''')"

text \<open>
  What a field of the canonical metadata is populated with, given the source mapping: the
  source value when the key is present and its value truthy, the default otherwise.
\<close>

definition populated :: "pydict \<Rightarrow> string \<Rightarrow> pyval" where
  "populated m k =
     (case map_of m k of
        None \<Rightarrow> field_default k
      | Some v \<Rightarrow> if truthy v then v else field_default k)"

text \<open>
  The canonical schema: exactly the six fixed keys and \<^verbatim>\<open>doc_name\<close>, each once; every
  fixed key populated from the source mapping \<open>m\<close>; \<^verbatim>\<open>doc_name\<close> the given name; no
  value \<^verbatim>\<open>None\<close>.
\<close>

definition canonical :: "string \<Rightarrow> pydict \<Rightarrow> pydict \<Rightarrow> bool" where
  "canonical doc_name m md \<longleftrightarrow>
     set (map fst md) = set fixed_keys \<union> {''doc_name''} \<and>
     distinct (map fst md) \<and>
     list_all (\<lambda>k. map_of md k = Some (populated m k)) fixed_keys \<and>
     map_of md ''doc_name'' = Some (PStr doc_name) \<and>
     list_all (\<lambda>kv. snd kv \<noteq> PNone) md"

text \<open>
  The input constraint on a raw record of the local-file shape: a mapping with a metadata
  mapping under \<^verbatim>\<open>metadata\<close>, whose content is a string whenever it is present and
  truthy (the content and every metadata field may be missing).
\<close>

definition string_content :: "pydict \<Rightarrow> bool" where
  "string_content d =
     (case map_of d ''page_content'' of
        None \<Rightarrow> True
      | Some v \<Rightarrow> \<not> truthy v \<or> is_str v)"

definition normalizable :: "pyval \<Rightarrow> bool" where
  "normalizable x =
     (case x of
        PDict d \<Rightarrow>
          (case map_of d ''metadata'' of Some (PDict m) \<Rightarrow> string_content d | _ \<Rightarrow> False)
      | _ \<Rightarrow> False)"

text \<open>The calls an operation added to the log, and the commit precondition on a call.\<close>

definition new_calls :: "world \<Rightarrow> world \<Rightarrow> client_call list" where
  "new_calls w w' = drop (length (calls w)) (calls w')"

fun balanced :: "client_call \<Rightarrow> bool" where
  "balanced (AddDocuments u c documents ids) = (length documents = length ids)"
| "balanced (Connect u c drop_old) = True"

section \<open>A concrete world\<close>

text \<open>
  A file of two records (one with every metadata field and a \<^verbatim>\<open>doc_name\<close> of its own,
  one with an empty metadata mapping), a file of one record, a file holding the JSON
  object \<^verbatim>\<open>{}\<close>, a file holding a number, a file whose record has a list for a title
  and a string for a start index, a file whose second record has no \<^verbatim>\<open>metadata\<close> key,
  a file whose first record has a number for content and whose second record has no
  \<^verbatim>\<open>metadata\<close> key; two crawled pages; an endpoint with one collection already seeded.
\<close>

definition demo_full :: pyval where
  "demo_full =
     PDict [(''page_content'', PStr ''Stack AI builds agents''),
            (''metadata'',
             PDict [(''source'', PStr ''https://www.stack-ai.com/docs''),
                    (''content_type'', PStr ''text/html''),
                    (''title'', PStr ''Docs''),
                    (''description'', PStr ''Guide''),
                    (''language'', PStr ''vi''),
                    (''doc_name'', PStr ''other name''),
                    (''start_index'', PInt 7)])]"

definition demo_bare :: pyval where
  "demo_bare = PDict [(''page_content'', PStr ''hello''), (''metadata'', PDict [])]"

definition demo_ill_typed :: pyval where
  "demo_ill_typed =
     PDict [(''page_content'', PStr ''chunk''),
            (''metadata'', PDict [(''title'', PList [PInt 1, PInt 2]),
                                  (''start_index'', PStr ''abc'')])]"

definition demo_ill_typed_doc :: Document where
  "demo_ill_typed_doc =
     \<lparr>page_content = PStr ''chunk'',
      metadata = [(''source'', PStr ''''),
                  (''content_type'', PStr ''text/plain''),
                  (''title'', PList [PInt 1, PInt 2]),
                  (''description'', PStr ''''),
                  (''language'', PStr ''en''),
                  (''doc_name'', PStr ''bad types''),
                  (''start_index'', PStr ''abc'')]\<rparr>"

definition demo_files :: "string \<Rightarrow> error + pyval" where
  "demo_files path =
     (if path = ''data_v3/stack_guide.json'' then Inr (PList [demo_full, demo_bare])
      else if path = ''data_v3/faq.json'' then Inr (PList [demo_bare])
      else if path = ''data_v3/object.json'' then Inr (PDict [])
      else if path = ''data_v3/number.json'' then Inr (PInt 5)
      else if path = ''data_v3/bad_types.json'' then Inr (PList [demo_ill_typed])
      else if path = ''data_v3/bad_content.json''
        then Inr (PList [PDict [(''page_content'', PInt 5), (''metadata'', PDict [])],
                         PDict [(''page_content'', PStr ''text only'')]])
      else if path = ''data_v3/no_metadata.json''
        then Inr (PList [demo_bare, PDict [(''page_content'', PStr ''text only'')]])
      else Inl OSError)"

definition demo_page :: Document where
  "demo_page =
     \<lparr>page_content = PStr ''Welcome'',
      metadata = [(''source'', PStr ''https://www.stack-ai.com/docs''),
                  (''title'', PStr ''Welcome''),
                  (''viewport'', PStr ''width=device-width'')]\<rparr>"

definition demo_blank :: Document where
  "demo_blank = \<lparr>page_content = PStr ''Pricing'', metadata = []\<rparr>"

definition demo_web :: "string \<Rightarrow> error + Document list" where
  "demo_web url =
     (if url = ''https://www.stack-ai.com/docs'' then Inr [demo_page, demo_blank]
      else if url = ''https://www.stack-ai.com/blog'' then Inr [demo_blank]
      else Inl CrawlFailed)"

definition demo_uuid :: "nat \<Rightarrow> string" where
  "demo_uuid k =
     (if k = 0 then ''9f1c2a64-3b7e-4d15-8a90-5c2e61f0b7d3''
      else if k = 1 then ''0b8e7d52-6a41-4c3f-9e27-d1a4f5c8e690''
      else if k = 2 then ''c47a9e10-2f5b-4a68-b3d9-7e6015f2a8c4''
      else if k = 3 then ''5d20f6b9-8c13-4e7a-a54f-19b3c0d7e286''
      else ''e3a5c7f1-4b29-4f80-8d6c-2a7b9e01c5f4'')"

definition demo_old :: "(string \<times> Document) list" where
  "demo_old =
     [(''71d4e0a3-9c58-4b26-a7f1-3e8b5d2c6f09'',
       \<lparr>page_content = PStr ''seeded earlier'', metadata = metadata_dict ''archive'' []\<rparr>)]"

definition demo_world :: world where
  "demo_world =
     \<lparr>files = demo_files,
      web = demo_web,
      heap = (\<lambda>r. \<lparr>page_content = PNone, metadata = []\<rparr>),
      next_ref = 0,
      uuid_source = demo_uuid,
      uuid_drawn = 0,
      reachable = (\<lambda>u. u = ''http://localhost:19530''),
      collections =
        (\<lambda>key. if key = (''http://localhost:19530'', ''data_test'') then Some demo_old else None),
      calls = []\<rparr>"

text \<open>The two records of the first file, normalized under the name \<^verbatim>\<open>stack guide\<close>.\<close>

definition demo_doc_full :: Document where
  "demo_doc_full =
     \<lparr>page_content = PStr ''Stack AI builds agents'',
      metadata = [(''source'', PStr ''https://www.stack-ai.com/docs''),
                  (''content_type'', PStr ''text/html''),
                  (''title'', PStr ''Docs''),
                  (''description'', PStr ''Guide''),
                  (''language'', PStr ''vi''),
                  (''doc_name'', PStr ''stack guide''),
                  (''start_index'', PInt 7)]\<rparr>"

definition demo_doc_bare :: "string \<Rightarrow> Document" where
  "demo_doc_bare doc_name =
     \<lparr>page_content = PStr ''hello'',
      metadata = [(''source'', PStr ''''),
                  (''content_type'', PStr ''text/plain''),
                  (''title'', PStr ''''),
                  (''description'', PStr ''''),
                  (''language'', PStr ''en''),
                  (''doc_name'', PStr doc_name),
                  (''start_index'', PInt 0)]\<rparr>"

text \<open>
  The worlds reached from the concrete one: by seeding the collection from the first file
  and then from the second, and by crawling one site into it and then another.
\<close>

definition seeded_once :: world where
  "seeded_once =
     snd (seed_milvus ''http://localhost:19530'' ''data_test'' ''stack_guide.json'' ''data_v3''
            demo_world)"

definition seeded_twice :: world where
  "seeded_twice =
     snd (seed_milvus ''http://localhost:19530'' ''data_test'' ''faq.json'' ''data_v3''
            seeded_once)"

definition crawled_once :: world where
  "crawled_once =
     snd (seed_milvus_live ''https://www.stack-ai.com/docs'' ''http://localhost:19530''
            ''data_test'' ''stack-ai'' demo_world)"

definition crawled_twice :: world where
  "crawled_twice =
     snd (seed_milvus_live ''https://www.stack-ai.com/blog'' ''http://localhost:19530''
            ''data_test'' ''blog'' crawled_once)"



section \<open>Strings: the document name of a file\<close>

lemma rsplit1_nonempty: "rsplit1 s sep \<noteq> []"
  by (simp add: rsplit1_def)

lemma rsplit1_no_sep: "sep \<notin> set s \<Longrightarrow> hd (rsplit1 s sep) = s"
  by (simp add: rsplit1_def)

lemma rsplit1_last_sep:
  assumes "sep \<notin> set ext"
  shows "rsplit1 (stem @ sep # ext) sep = [stem, ext]"
proof -
  have tw: "takeWhile (\<lambda>c. c \<noteq> sep) (rev ext @ sep # rev stem) = rev ext"
    using assms by (subst takeWhile_append2) auto
  have dw: "dropWhile (\<lambda>c. c \<noteq> sep) (rev ext @ sep # rev stem) = sep # rev stem"
    using assms by (subst dropWhile_append2) auto
  show ?thesis
    by (simp add: rsplit1_def tw dw)
qed

lemma demo_load:
  "load_data_from_local ''stack_guide.json'' ''data_v3'' demo_world =
     Inr (PList [demo_full, demo_bare], ''stack guide'')"
  by (simp add: load_data_from_local_def demo_world_def demo_files_def rsplit1_def str_replace_def)

text \<open>
  C6. On the local-file path the document name is the file name with the part from its
  last dot on removed and every underscore replaced by a space; a file name without a
  dot is taken whole, its underscores replaced by spaces.
\<close>

theorem doc_name_from_filename:
  assumes "load_data_from_local filename directory w = Inr (data, doc_name)"
  shows "(CHR ''.'' \<notin> set filename \<longrightarrow>
            doc_name = map (\<lambda>c. if c = CHR ''_'' then CHR '' '' else c) filename) \<and>
         (\<forall>stem ext. filename = stem @ ''.'' @ ext \<and> CHR ''.'' \<notin> set ext \<longrightarrow>
            doc_name = map (\<lambda>c. if c = CHR ''_'' then CHR '' '' else c) stem)"
  using assms
  by (auto simp: load_data_from_local_def Let_def str_replace_def rsplit1_no_sep rsplit1_last_sep
           split: sum.splits)

theorem doc_name_from_filename_witness:
  "load_data_from_local ''stack_guide.json'' ''data_v3'' demo_world =
     Inr (PList [demo_full, demo_bare], ''stack guide'') \<and>
   ''stack_guide.json'' = ''stack_guide'' @ ''.'' @ ''json'' \<and>
   CHR ''.'' \<notin> set ''json'' \<and>
   ''stack guide'' = map (\<lambda>c. if c = CHR ''_'' then CHR '' '' else c) ''stack_guide''"
proof -
  have split: "''stack_guide.json'' = ''stack_guide'' @ ''.'' @ ''json'' \<and> CHR ''.'' \<notin> set ''json''"
    by simp
  from doc_name_from_filename [OF demo_load] split
  have "''stack guide'' = map (\<lambda>c. if c = CHR ''_'' then CHR '' '' else c) ''stack_guide''"
    by blast
  with demo_load split show ?thesis by blast
qed

section \<open>Normalization\<close>

lemma comprehension_length: "comprehension f xs = Inr ys \<Longrightarrow> length ys = length xs"
  by (induction xs arbitrary: ys) (auto split: sum.splits)

lemma comprehension_nth:
  "comprehension f xs = Inr ys \<Longrightarrow> i < length xs \<Longrightarrow> f (xs ! i) = Inr (ys ! i)"
proof (induction xs arbitrary: ys i)
  case Nil
  then show ?case by simp
next
  case (Cons x xs)
  then show ?case
    by (cases i) (auto split: sum.splits)
qed

lemma comprehension_Inl: "comprehension f xs = Inl e \<Longrightarrow> \<exists>x \<in> set xs. f x = Inl e"
  by (induction xs) (auto split: sum.splits)

lemma comprehension_all_Inr:
  "(\<And>x. x \<in> set xs \<Longrightarrow> \<exists>y. f x = Inr y) \<Longrightarrow> \<exists>ys. comprehension f xs = Inr ys"
proof (induction xs)
  case Nil
  then show ?case by simp
next
  case (Cons x xs)
  then obtain y ys where "f x = Inr y" "comprehension f xs = Inr ys"
    by (meson list.set_intros)
  then show ?case by simp
qed

lemma py_or_idem: "py_or (py_or x d) d = py_or x d"
  by (simp add: py_or_def)

lemma py_or_dict_get:
  "py_or (dict_get m k) d = (case map_of m k of None \<Rightarrow> d | Some v \<Rightarrow> if truthy v then v else d)"
  by (simp add: py_or_def dict_get_def split: option.splits)

lemma py_or_not_None: "d \<noteq> PNone \<Longrightarrow> py_or x d \<noteq> PNone"
  by (cases x) (simp_all add: py_or_def)

lemma metadata_dict_keys:
  "map fst (metadata_dict n m) =
     [''source'', ''content_type'', ''title'', ''description'', ''language'', ''doc_name'',
      ''start_index'']"
  by (simp add: metadata_dict_def)

lemma metadata_dict_populated:
  "list_all (\<lambda>k. map_of (metadata_dict n m) k = Some (populated m k)) fixed_keys"
  by (simp add: fixed_keys_def metadata_dict_def populated_def field_default_def py_or_dict_get
        split: option.splits)

lemma metadata_dict_doc_name: "map_of (metadata_dict n m) ''doc_name'' = Some (PStr n)"
  by (simp add: metadata_dict_def)

lemma metadata_dict_no_None: "list_all (\<lambda>kv. snd kv \<noteq> PNone) (metadata_dict n m)"
  by (simp add: metadata_dict_def py_or_not_None)

lemma metadata_dict_canonical: "canonical n m (metadata_dict n m)"
  unfolding canonical_def
  using metadata_dict_populated [of n m] metadata_dict_doc_name [of n m]
    metadata_dict_no_None [of n m]
  by (simp add: metadata_dict_keys fixed_keys_def insert_commute)

lemma metadata_dict_idem: "metadata_dict n (metadata_dict n m) = metadata_dict n m"
  by (simp add: metadata_dict_def dict_get_def py_or_def)

lemma assign_metadata_idem: "assign_metadata n (assign_metadata n D) = assign_metadata n D"
  by (simp add: assign_metadata_def metadata_dict_idem)

lemma update_metadata_apply:
  "update_metadata n rs h r = (if r \<in> set rs then assign_metadata n (h r) else h r)"
  by (induction rs arbitrary: h) (auto simp: assign_metadata_idem)

lemma py_or_is_str:
  "is_str (py_or (dict_get d ''page_content'') (PStr '''')) = string_content d"
  by (auto simp: py_or_def dict_get_def string_content_def split: option.splits)

lemma Document_init_str:
  "is_str content \<Longrightarrow> Document_init content md = Inr \<lparr>page_content = content, metadata = md\<rparr>"
  by (cases content) (simp_all add: Document_init_def)

lemma Document_init_not_str: "\<not> is_str content \<Longrightarrow> Document_init content md = Inl ValidationError"
  by (cases content) (simp_all add: Document_init_def)

lemma make_document_Inr:
  "map_of d ''metadata'' = Some (PDict m) \<Longrightarrow> string_content d \<Longrightarrow>
   make_document n (PDict d) =
     Inr \<lparr>page_content = py_or (dict_get d ''page_content'') (PStr ''''),
          metadata = metadata_dict n m\<rparr>"
  by (simp add: make_document_def Document_init_str py_or_is_str)

lemma make_document_ValidationError:
  "map_of d ''metadata'' = Some (PDict m) \<Longrightarrow> \<not> string_content d \<Longrightarrow>
   make_document n (PDict d) = Inl ValidationError"
  by (simp add: make_document_def Document_init_not_str py_or_is_str)

lemma Document_init_metadata: "Document_init content md = Inr D \<Longrightarrow> metadata D = md"
  by (cases content) (auto simp: Document_init_def)

lemma make_document_doc_name:
  "make_document n doc = Inr D \<Longrightarrow> map_of (metadata D) ''doc_name'' = Some (PStr n)"
  by (auto simp: make_document_def metadata_dict_doc_name dest!: Document_init_metadata
        split: pyval.splits option.splits)

text \<open>
  C1. A record with a metadata mapping, whatever subset of the optional fields it holds,
  is normalized on both paths to a document whose metadata has exactly the six fixed keys
  and \<^verbatim>\<open>doc_name\<close>, each fixed key holding the source value when that is present and
  truthy and its documented default otherwise, and no value \<^verbatim>\<open>None\<close>. On the local
  path the content of a record is a string whenever it is present and truthy, and the
  document's content is that string, or the empty string when the source content is
  absent or falsy; a record with any other content yields no document: the constructor
  refuses it. On the live path the content of the crawled object stays as it is; it is
  a string, so it is the empty string exactly when the source content is falsy.
\<close>

theorem normalization_defaults:
  "(map_of d ''metadata'' = Some (PDict m) \<and> string_content d \<longrightarrow>
      (\<exists>D. make_document doc_name (PDict d) = Inr D \<and>
           canonical doc_name m (metadata D) \<and>
           is_str (page_content D) \<and>
           page_content D =
             (case map_of d ''page_content'' of
                None \<Rightarrow> PStr ''''
              | Some v \<Rightarrow> if truthy v then v else PStr ''''))) \<and>
   (map_of d ''metadata'' = Some (PDict m) \<and> \<not> string_content d \<longrightarrow>
      make_document doc_name (PDict d) = Inl ValidationError) \<and>
   (r \<in> set documents \<longrightarrow>
      canonical doc_name (metadata (h r)) (metadata (update_metadata doc_name documents h r)) \<and>
      page_content (update_metadata doc_name documents h r) = page_content (h r) \<and>
      (page_content (h r) = PStr s \<longrightarrow>
         page_content (update_metadata doc_name documents h r) =
           (if truthy (PStr s) then PStr s else PStr '''')))"
proof (intro conjI impI)
  assume a: "map_of d ''metadata'' = Some (PDict m) \<and> string_content d"
  then have "make_document doc_name (PDict d) =
      Inr \<lparr>page_content = py_or (dict_get d ''page_content'') (PStr ''''),
           metadata = metadata_dict doc_name m\<rparr>"
    by (simp add: make_document_Inr)
  moreover from a have "is_str (py_or (dict_get d ''page_content'') (PStr ''''))"
    by (simp add: py_or_is_str)
  ultimately show "\<exists>D. make_document doc_name (PDict d) = Inr D \<and>
           canonical doc_name m (metadata D) \<and>
           is_str (page_content D) \<and>
           page_content D =
             (case map_of d ''page_content'' of
                None \<Rightarrow> PStr ''''
              | Some v \<Rightarrow> if truthy v then v else PStr '''')"
    by (simp add: metadata_dict_canonical py_or_dict_get)
next
  assume "map_of d ''metadata'' = Some (PDict m) \<and> \<not> string_content d"
  then show "make_document doc_name (PDict d) = Inl ValidationError"
    by (simp add: make_document_ValidationError)
next
  assume "r \<in> set documents"
  then show "canonical doc_name (metadata (h r))
      (metadata (update_metadata doc_name documents h r))"
    by (simp add: update_metadata_apply assign_metadata_def metadata_dict_canonical)
next
  assume "r \<in> set documents"
  then show "page_content (update_metadata doc_name documents h r) = page_content (h r)"
    by (simp add: update_metadata_apply assign_metadata_def)
next
  assume "r \<in> set documents" and "page_content (h r) = PStr s"
  then show "page_content (update_metadata doc_name documents h r) =
      (if truthy (PStr s) then PStr s else PStr '''')"
    by (simp add: update_metadata_apply assign_metadata_def)
qed

theorem normalization_defaults_witness:
  "map_of [(''page_content'', PStr ''''), (''metadata'', PDict [(''title'', PStr ''Docs'')])]
      ''metadata'' = Some (PDict [(''title'', PStr ''Docs'')]) \<and>
   string_content [(''page_content'', PStr ''''), (''metadata'', PDict [(''title'', PStr ''Docs'')])] \<and>
   (\<exists>D. make_document ''stack guide''
          (PDict [(''page_content'', PStr ''''), (''metadata'', PDict [(''title'', PStr ''Docs'')])])
          = Inr D \<and>
        canonical ''stack guide'' [(''title'', PStr ''Docs'')] (metadata D) \<and>
        page_content D = PStr '''') \<and>
   map_of [(''page_content'', PInt 5), (''metadata'', PDict [])] ''metadata'' = Some (PDict []) \<and>
   \<not> string_content [(''page_content'', PInt 5), (''metadata'', PDict [])] \<and>
   make_document ''stack guide'' (PDict [(''page_content'', PInt 5), (''metadata'', PDict [])]) =
     Inl ValidationError \<and>
   (0::nat) \<in> set [0] \<and>
   page_content demo_page = PStr ''Welcome'' \<and>
   canonical ''stack guide'' (metadata demo_page)
     (metadata (update_metadata ''stack guide'' [0] (\<lambda>r. demo_page) 0)) \<and>
   page_content (update_metadata ''stack guide'' [0] (\<lambda>r. demo_page) 0) = PStr ''Welcome''"
proof -
  have content: "page_content demo_page = PStr ''Welcome''"
    by (simp add: demo_page_def)
  have ok: "string_content
      [(''page_content'', PStr ''''), (''metadata'', PDict [(''title'', PStr ''Docs'')])]"
    by (simp add: string_content_def)
  have bad: "\<not> string_content [(''page_content'', PInt 5), (''metadata'', PDict [])]"
    by (simp add: string_content_def)
  from normalization_defaults
    [of "[(''page_content'', PStr ''''), (''metadata'', PDict [(''title'', PStr ''Docs'')])]"
        "[(''title'', PStr ''Docs'')]" "''stack guide''" 0 "[0]" "\<lambda>r. demo_page" "''Welcome''"]
    content ok
  have one: "(\<exists>D. make_document ''stack guide''
          (PDict [(''page_content'', PStr ''''), (''metadata'', PDict [(''title'', PStr ''Docs'')])])
          = Inr D \<and>
        canonical ''stack guide'' [(''title'', PStr ''Docs'')] (metadata D) \<and>
        page_content D = PStr '''') \<and>
     canonical ''stack guide'' (metadata demo_page)
       (metadata (update_metadata ''stack guide'' [0] (\<lambda>r. demo_page) 0)) \<and>
     page_content (update_metadata ''stack guide'' [0] (\<lambda>r. demo_page) 0) = PStr ''Welcome''"
    by auto
  from normalization_defaults
    [of "[(''page_content'', PInt 5), (''metadata'', PDict [])]" "[]" "''stack guide''"] bad
  have two: "make_document ''stack guide''
      (PDict [(''page_content'', PInt 5), (''metadata'', PDict [])]) = Inl ValidationError"
    by simp
  from one two ok bad content show ?thesis
    by simp
qed

section \<open>The two ingestion functions, step by step\<close>

lemma seed_milvus_success:
  assumes "seed_milvus URI C f d w = (Inr vs, w')"
  shows "\<exists>data dn records documents.
           load_data_from_local f d w = Inr (data, dn) \<and>
           py_iter data = Inr records \<and>
           comprehension (make_document dn) records = Inr documents \<and>
           reachable w URI \<and>
           vs = \<lparr>uri = URI, collection = C\<rparr> \<and>
           w' = w\<lparr>uuid_drawn := uuid_drawn w + length documents,
                  collections := (collections w)((URI, C) \<mapsto>
                     zip (map (uuid_source w) [uuid_drawn w ..< uuid_drawn w + length documents])
                         documents),
                  calls := calls w @ [Connect URI C True,
                     AddDocuments URI C documents
                       (map (uuid_source w) [uuid_drawn w ..< uuid_drawn w + length documents])]\<rparr>"
  using assms
  by (auto simp: seed_milvus_def Milvus_def add_documents_def uuid4_strs_def entries_def Let_def
           split: sum.splits prod.splits if_splits)

lemma seed_milvus_calls:
  "new_calls w (snd (seed_milvus URI C f d w)) = [] \<or>
   new_calls w (snd (seed_milvus URI C f d w)) = [Connect URI C True] \<or>
   (\<exists>documents ids. length documents = length ids \<and>
      new_calls w (snd (seed_milvus URI C f d w)) =
        [Connect URI C True, AddDocuments URI C documents ids])"
  by (auto simp: seed_milvus_def Milvus_def add_documents_def uuid4_strs_def entries_def Let_def
        new_calls_def split: sum.splits prod.splits if_splits)

lemma map_fresh_refs:
  "map (\<lambda>r. if a \<le> r \<and> r < a + length xs then f (xs ! (r - a)) else g r) [a..<a + length xs] =
     map f xs"
  by (rule nth_equalityI) auto

lemma update_metadata_fresh:
  "update_metadata n [a..<a + length docs]
     (\<lambda>r. if a \<le> r \<and> r < a + length docs then docs ! (r - a) else h r) =
   (\<lambda>r. if a \<le> r \<and> r < a + length docs then assign_metadata n (docs ! (r - a)) else h r)"
  by (rule ext) (simp add: update_metadata_apply)

lemma seed_milvus_live_success:
  assumes "seed_milvus_live URL URI C n w = (Inr vs, w')"
  shows "\<exists>docs.
           web w URL = Inr docs \<and>
           reachable w URI \<and>
           vs = \<lparr>uri = URI, collection = C\<rparr> \<and>
           w' = w\<lparr>heap := (\<lambda>r. if next_ref w \<le> r \<and> r < next_ref w + length docs
                               then assign_metadata n (docs ! (r - next_ref w)) else heap w r),
                  next_ref := next_ref w + length docs,
                  uuid_drawn := uuid_drawn w + length docs,
                  collections := (collections w)((URI, C) \<mapsto> entries w (URI, C) @
                     zip (map (uuid_source w) [uuid_drawn w ..< uuid_drawn w + length docs])
                         (map (assign_metadata n) docs)),
                  calls := calls w @ [Connect URI C False,
                     AddDocuments URI C (map (assign_metadata n) docs)
                       (map (uuid_source w) [uuid_drawn w ..< uuid_drawn w + length docs])]\<rparr>"
  using assms
  by (auto simp: seed_milvus_live_def crawl_web_def Milvus_def add_documents_def uuid4_strs_def
        entries_def Let_def update_metadata_fresh map_fresh_refs
      split: sum.splits prod.splits if_splits)

lemma seed_milvus_live_calls:
  "new_calls w (snd (seed_milvus_live URL URI C n w)) = [] \<or>
   new_calls w (snd (seed_milvus_live URL URI C n w)) = [Connect URI C False] \<or>
   (\<exists>documents ids. length documents = length ids \<and>
      new_calls w (snd (seed_milvus_live URL URI C n w)) =
        [Connect URI C False, AddDocuments URI C documents ids])"
  by (auto simp: seed_milvus_live_def crawl_web_def Milvus_def add_documents_def uuid4_strs_def
        entries_def Let_def new_calls_def split: sum.splits prod.splits if_splits)

lemma seed_milvus_run:
  assumes "load_data_from_local f d w = Inr (data, dn)"
    and "py_iter data = Inr records"
    and "comprehension (make_document dn) records = Inr documents"
    and "reachable w URI"
    and "distinct (map (uuid_source w) [uuid_drawn w ..< uuid_drawn w + length documents])"
    and "list_all conforms documents"
  shows "seed_milvus URI C f d w =
     (Inr \<lparr>uri = URI, collection = C\<rparr>,
      w\<lparr>uuid_drawn := uuid_drawn w + length documents,
        collections := (collections w)((URI, C) \<mapsto>
           zip (map (uuid_source w) [uuid_drawn w ..< uuid_drawn w + length documents])
               documents),
        calls := calls w @ [Connect URI C True,
           AddDocuments URI C documents
             (map (uuid_source w) [uuid_drawn w ..< uuid_drawn w + length documents])]\<rparr>)"
  using assms
  by (simp add: seed_milvus_def Milvus_def add_documents_def uuid4_strs_def entries_def Let_def)

lemma seed_milvus_live_run:
  assumes "web w URL = Inr docs" and "reachable w URI"
    and "distinct (map (uuid_source w) [uuid_drawn w ..< uuid_drawn w + length docs])"
    and "list_all conforms (map (assign_metadata n) docs)"
  shows "seed_milvus_live URL URI C n w =
     (Inr \<lparr>uri = URI, collection = C\<rparr>,
      w\<lparr>heap := (\<lambda>r. if next_ref w \<le> r \<and> r < next_ref w + length docs
                       then assign_metadata n (docs ! (r - next_ref w)) else heap w r),
        next_ref := next_ref w + length docs,
        uuid_drawn := uuid_drawn w + length docs,
        collections := (collections w)((URI, C) \<mapsto> entries w (URI, C) @
           zip (map (uuid_source w) [uuid_drawn w ..< uuid_drawn w + length docs])
               (map (assign_metadata n) docs)),
        calls := calls w @ [Connect URI C False,
           AddDocuments URI C (map (assign_metadata n) docs)
             (map (uuid_source w) [uuid_drawn w ..< uuid_drawn w + length docs])]\<rparr>)"
  using assms
  by (simp add: seed_milvus_live_def crawl_web_def Milvus_def add_documents_def uuid4_strs_def
        entries_def Let_def update_metadata_fresh map_fresh_refs)

lemma demo_make_full: "make_document ''stack guide'' demo_full = Inr demo_doc_full"
  by (simp add: make_document_def Document_init_def demo_full_def demo_doc_full_def
        metadata_dict_def dict_get_def py_or_def)

lemma demo_make_bare: "make_document n demo_bare = Inr (demo_doc_bare n)"
  by (simp add: make_document_def Document_init_def demo_bare_def demo_doc_bare_def
        metadata_dict_def dict_get_def py_or_def)

lemma demo_conforms:
  "conforms demo_doc_full" "conforms (demo_doc_bare n)"
  "conforms (assign_metadata n demo_page)" "conforms (assign_metadata n demo_blank)"
  by (simp_all add: conforms_def demo_doc_full_def demo_doc_bare_def assign_metadata_def
        metadata_dict_def demo_page_def demo_blank_def dict_get_def py_or_def insert_commute)

lemma demo_uuid_distinct: "demo_uuid 0 \<noteq> demo_uuid (Suc 0)"
  by (simp add: demo_uuid_def)

lemma demo_world_fields:
  "uuid_drawn demo_world = 0" "uuid_source demo_world = demo_uuid"
  "reachable demo_world ''http://localhost:19530''" "calls demo_world = []"
  "next_ref demo_world = 0" "web demo_world = demo_web" "files demo_world = demo_files"
  "collections demo_world (''http://localhost:19530'', ''data_test'') = Some demo_old"
  by (simp_all add: demo_world_def)

lemma upt_0_2: "[0..<2] = [0, Suc 0]"
  by (simp add: upt_rec)

lemma demo_seed:
  "seed_milvus ''http://localhost:19530'' ''data_test'' ''stack_guide.json'' ''data_v3'' demo_world =
     (Inr \<lparr>uri = ''http://localhost:19530'', collection = ''data_test''\<rparr>,
      demo_world
        \<lparr>uuid_drawn := 2,
         collections := (collections demo_world)
           ((''http://localhost:19530'', ''data_test'') \<mapsto>
              [(demo_uuid 0, demo_doc_full), (demo_uuid 1, demo_doc_bare ''stack guide'')]),
         calls := [Connect ''http://localhost:19530'' ''data_test'' True,
                   AddDocuments ''http://localhost:19530'' ''data_test''
                     [demo_doc_full, demo_doc_bare ''stack guide''] [demo_uuid 0, demo_uuid 1]]\<rparr>)"
proof -
  have "comprehension (make_document ''stack guide'') [demo_full, demo_bare] =
          Inr [demo_doc_full, demo_doc_bare ''stack guide'']"
    by (simp add: demo_make_full demo_make_bare)
  moreover have "distinct (map (uuid_source demo_world)
      [uuid_drawn demo_world ..<
       uuid_drawn demo_world + length [demo_doc_full, demo_doc_bare ''stack guide'']])"
    by (simp add: demo_world_fields upt_0_2 demo_uuid_distinct)
  moreover have "list_all conforms [demo_doc_full, demo_doc_bare ''stack guide'']"
    by (simp add: demo_conforms)
  ultimately show ?thesis
    using seed_milvus_run [OF demo_load _ _ demo_world_fields(3),
        of "[demo_full, demo_bare]" "[demo_doc_full, demo_doc_bare ''stack guide'']"
          "''data_test''"]
    by (simp add: demo_world_fields upt_0_2)
qed

lemma seeded_once_eq:
  "seeded_once =
     demo_world
        \<lparr>uuid_drawn := 2,
         collections := (collections demo_world)
           ((''http://localhost:19530'', ''data_test'') \<mapsto>
              [(demo_uuid 0, demo_doc_full), (demo_uuid 1, demo_doc_bare ''stack guide'')]),
         calls := [Connect ''http://localhost:19530'' ''data_test'' True,
                   AddDocuments ''http://localhost:19530'' ''data_test''
                     [demo_doc_full, demo_doc_bare ''stack guide''] [demo_uuid 0, demo_uuid 1]]\<rparr>"
  by (simp add: seeded_once_def demo_seed)

lemma demo_load_faq:
  "load_data_from_local ''faq.json'' ''data_v3'' seeded_once = Inr (PList [demo_bare], ''faq'')"
  by (simp add: seeded_once_eq load_data_from_local_def demo_world_fields demo_files_def
        rsplit1_def str_replace_def)

lemma demo_reseed:
  "seed_milvus ''http://localhost:19530'' ''data_test'' ''faq.json'' ''data_v3'' seeded_once =
     (Inr \<lparr>uri = ''http://localhost:19530'', collection = ''data_test''\<rparr>, seeded_twice)"
proof -
  have "comprehension (make_document ''faq'') [demo_bare] = Inr [demo_doc_bare ''faq'']"
    by (simp add: demo_make_bare)
  moreover have "reachable seeded_once ''http://localhost:19530''"
    by (simp add: seeded_once_eq demo_world_fields)
  moreover have "conforms (demo_doc_bare ''faq'')"
    by (rule demo_conforms)
  ultimately have "fst (seed_milvus ''http://localhost:19530'' ''data_test'' ''faq.json'' ''data_v3''
          seeded_once) = Inr \<lparr>uri = ''http://localhost:19530'', collection = ''data_test''\<rparr>"
    by (simp add: seed_milvus_run [OF demo_load_faq])
  then show ?thesis
    by (simp add: seeded_twice_def prod_eq_iff)
qed

lemma seeded_twice_collection:
  "collections seeded_twice (''http://localhost:19530'', ''data_test'') =
     Some [(demo_uuid 2, demo_doc_bare ''faq'')]"
proof -
  have "comprehension (make_document ''faq'') [demo_bare] = Inr [demo_doc_bare ''faq'']"
    by (simp add: demo_make_bare)
  moreover have "reachable seeded_once ''http://localhost:19530''"
    by (simp add: seeded_once_eq demo_world_fields)
  moreover have "uuid_drawn seeded_once = 2" "uuid_source seeded_once = demo_uuid"
    by (simp_all add: seeded_once_eq demo_world_fields)
  moreover have "[2..<Suc 2] = [2::nat]"
    by simp
  moreover have "conforms (demo_doc_bare ''faq'')"
    by (rule demo_conforms)
  ultimately show ?thesis
    by (simp add: seeded_twice_def seed_milvus_run [OF demo_load_faq])
qed

lemma new_calls_append: "calls w' = calls w @ cs \<Longrightarrow> new_calls w w' = cs"
  by (simp add: new_calls_def)

section \<open>Replace and append\<close>

text \<open>
  C2. The local-file path opens the collection with \<^verbatim>\<open>drop_old=True\<close> (Replace). After
  one successful ingestion into a collection and a second one into the same collection,
  the collection holds the documents of the second batch, each under the identifier
  drawn for it, and nothing else.
\<close>

theorem replace_keeps_only_second_batch:
  assumes "seed_milvus URI C f1 d1 w0 = (Inr vs1, w1)"
    and "seed_milvus URI C f2 d2 w1 = (Inr vs2, w2)"
  shows "\<exists>data doc_name records documents ids.
           load_data_from_local f2 d2 w1 = Inr (data, doc_name) \<and>
           py_iter data = Inr records \<and>
           comprehension (make_document doc_name) records = Inr documents \<and>
           length ids = length documents \<and>
           new_calls w1 w2 = [Connect URI C True, AddDocuments URI C documents ids] \<and>
           collections w2 (URI, C) = Some (zip ids documents)"
proof -
  from seed_milvus_success [OF assms(2)]
  obtain data dn records documents where
    l: "load_data_from_local f2 d2 w1 = Inr (data, dn)" and
    i: "py_iter data = Inr records" and
    c: "comprehension (make_document dn) records = Inr documents" and
    w2: "w2 = w1\<lparr>uuid_drawn := uuid_drawn w1 + length documents,
                  collections := (collections w1)((URI, C) \<mapsto>
                     zip (map (uuid_source w1) [uuid_drawn w1 ..< uuid_drawn w1 + length documents])
                         documents),
                  calls := calls w1 @ [Connect URI C True,
                     AddDocuments URI C documents
                       (map (uuid_source w1) [uuid_drawn w1 ..< uuid_drawn w1 + length documents])]\<rparr>"
    by blast
  let ?ids = "map (uuid_source w1) [uuid_drawn w1 ..< uuid_drawn w1 + length documents]"
  have "length ?ids = length documents"
    by simp
  moreover have "new_calls w1 w2 = [Connect URI C True, AddDocuments URI C documents ?ids]"
    by (rule new_calls_append) (simp add: w2)
  moreover have "collections w2 (URI, C) = Some (zip ?ids documents)"
    by (simp add: w2)
  ultimately show ?thesis
    using l i c by blast
qed

theorem replace_keeps_only_second_batch_witness:
  "seed_milvus ''http://localhost:19530'' ''data_test'' ''stack_guide.json'' ''data_v3'' demo_world =
     (Inr \<lparr>uri = ''http://localhost:19530'', collection = ''data_test''\<rparr>, seeded_once) \<and>
   seed_milvus ''http://localhost:19530'' ''data_test'' ''faq.json'' ''data_v3'' seeded_once =
     (Inr \<lparr>uri = ''http://localhost:19530'', collection = ''data_test''\<rparr>, seeded_twice) \<and>
   collections seeded_once (''http://localhost:19530'', ''data_test'') =
     Some [(demo_uuid 0, demo_doc_full), (demo_uuid 1, demo_doc_bare ''stack guide'')] \<and>
   collections seeded_twice (''http://localhost:19530'', ''data_test'') =
     Some [(demo_uuid 2, demo_doc_bare ''faq'')] \<and>
   (\<exists>data doc_name records documents ids.
      load_data_from_local ''faq.json'' ''data_v3'' seeded_once = Inr (data, doc_name) \<and>
      py_iter data = Inr records \<and>
      comprehension (make_document doc_name) records = Inr documents \<and>
      length ids = length documents \<and>
      new_calls seeded_once seeded_twice =
        [Connect ''http://localhost:19530'' ''data_test'' True,
         AddDocuments ''http://localhost:19530'' ''data_test'' documents ids] \<and>
      collections seeded_twice (''http://localhost:19530'', ''data_test'') =
        Some (zip ids documents))"
proof -
  have first: "seed_milvus ''http://localhost:19530'' ''data_test'' ''stack_guide.json''
      ''data_v3'' demo_world =
     (Inr \<lparr>uri = ''http://localhost:19530'', collection = ''data_test''\<rparr>, seeded_once)"
    by (simp add: demo_seed seeded_once_eq)
  have c1: "collections seeded_once (''http://localhost:19530'', ''data_test'') =
     Some [(demo_uuid 0, demo_doc_full), (demo_uuid 1, demo_doc_bare ''stack guide'')]"
    by (simp add: seeded_once_eq)
  from replace_keeps_only_second_batch [OF first demo_reseed] first demo_reseed c1
    seeded_twice_collection
  show ?thesis
    by blast
qed

lemma entries_Some: "collections w key = Some es \<Longrightarrow> entries w key = es"
  by (simp add: entries_def)

lemma demo_crawl_checks:
  "distinct (map (uuid_source demo_world)
     [uuid_drawn demo_world ..< uuid_drawn demo_world + length [demo_page, demo_blank]])"
  "list_all conforms (map (assign_metadata n) [demo_page, demo_blank])"
  by (simp_all add: demo_world_fields upt_0_2 demo_uuid_distinct demo_conforms)

lemma demo_crawl:
  "seed_milvus_live ''https://www.stack-ai.com/docs'' ''http://localhost:19530'' ''data_test''
     ''stack-ai'' demo_world =
   (Inr \<lparr>uri = ''http://localhost:19530'', collection = ''data_test''\<rparr>, crawled_once)"
proof -
  have "web demo_world ''https://www.stack-ai.com/docs'' = Inr [demo_page, demo_blank]"
    by (simp add: demo_world_fields demo_web_def)
  from seed_milvus_live_run [OF this demo_world_fields(3) demo_crawl_checks]
  show ?thesis
    by (simp add: crawled_once_def)
qed

lemma seed_milvus_live_fields:
  assumes "web w URL = Inr docs" and "reachable w URI"
    and "distinct (map (uuid_source w) [uuid_drawn w ..< uuid_drawn w + length docs])"
    and "list_all conforms (map (assign_metadata n) docs)"
  shows "web (snd (seed_milvus_live URL URI C n w)) = web w"
    and "reachable (snd (seed_milvus_live URL URI C n w)) = reachable w"
    and "uuid_drawn (snd (seed_milvus_live URL URI C n w)) = uuid_drawn w + length docs"
    and "uuid_source (snd (seed_milvus_live URL URI C n w)) = uuid_source w"
    and "collections (snd (seed_milvus_live URL URI C n w)) (URI, C) =
           Some (entries w (URI, C) @
                 zip (map (uuid_source w) [uuid_drawn w ..< uuid_drawn w + length docs])
                     (map (assign_metadata n) docs))"
  by (simp_all add: seed_milvus_live_run [OF assms])

lemma crawled_once_fields:
  "web crawled_once = demo_web"
  "reachable crawled_once ''http://localhost:19530''"
  "uuid_drawn crawled_once = 2"
  "uuid_source crawled_once = demo_uuid"
  "collections crawled_once (''http://localhost:19530'', ''data_test'') =
     Some (demo_old @ [(demo_uuid 0, assign_metadata ''stack-ai'' demo_page),
                       (demo_uuid 1, assign_metadata ''stack-ai'' demo_blank)])"
proof -
  have docs: "web demo_world ''https://www.stack-ai.com/docs'' = Inr [demo_page, demo_blank]"
    by (simp add: demo_world_fields demo_web_def)
  note f = seed_milvus_live_fields [OF docs demo_world_fields(3) demo_crawl_checks,
      of "''data_test''"]
  show "web crawled_once = demo_web"
    by (simp add: crawled_once_def f demo_world_fields)
  show "reachable crawled_once ''http://localhost:19530''"
    by (simp add: crawled_once_def f demo_world_fields)
  show "uuid_drawn crawled_once = 2"
    by (simp add: crawled_once_def f demo_world_fields)
  show "uuid_source crawled_once = demo_uuid"
    by (simp add: crawled_once_def f demo_world_fields)
  show "collections crawled_once (''http://localhost:19530'', ''data_test'') =
     Some (demo_old @ [(demo_uuid 0, assign_metadata ''stack-ai'' demo_page),
                       (demo_uuid 1, assign_metadata ''stack-ai'' demo_blank)])"
    by (simp add: crawled_once_def f demo_world_fields entries_Some upt_0_2)
qed

lemma demo_crawl_again_checks:
  "distinct (map (uuid_source crawled_once)
     [uuid_drawn crawled_once ..< uuid_drawn crawled_once + length [demo_blank]])"
  "list_all conforms (map (assign_metadata n) [demo_blank])"
  by (simp_all add: demo_conforms)

lemma demo_crawl_again:
  "seed_milvus_live ''https://www.stack-ai.com/blog'' ''http://localhost:19530'' ''data_test''
     ''blog'' crawled_once =
   (Inr \<lparr>uri = ''http://localhost:19530'', collection = ''data_test''\<rparr>, crawled_twice)"
proof -
  have "web crawled_once ''https://www.stack-ai.com/blog'' = Inr [demo_blank]"
    by (simp add: crawled_once_fields demo_web_def)
  from seed_milvus_live_run [OF this crawled_once_fields(2) demo_crawl_again_checks]
  show ?thesis
    by (simp add: crawled_twice_def)
qed

lemma crawled_twice_collection:
  "collections crawled_twice (''http://localhost:19530'', ''data_test'') =
     Some (demo_old @ [(demo_uuid 0, assign_metadata ''stack-ai'' demo_page),
                       (demo_uuid 1, assign_metadata ''stack-ai'' demo_blank),
                       (demo_uuid 2, assign_metadata ''blog'' demo_blank)])"
proof -
  have docs: "web crawled_once ''https://www.stack-ai.com/blog'' = Inr [demo_blank]"
    by (simp add: crawled_once_fields demo_web_def)
  have "[2..<Suc 2] = [2::nat]"
    by simp
  with seed_milvus_live_fields(5) [OF docs crawled_once_fields(2) demo_crawl_again_checks,
      of "''data_test''"]
  show ?thesis
    by (simp add: crawled_twice_def crawled_once_fields entries_Some)
qed

text \<open>
  C3. The live-crawl path opens the collection without \<^verbatim>\<open>drop_old\<close> (Append). After
  one successful ingestion into a collection and a second one into the same collection,
  the collection holds what it held before, then the documents of the first batch, then
  those of the second, each under the identifier drawn for it: the union of the three,
  with no earlier entry lost or changed.
\<close>

theorem append_keeps_both_batches:
  assumes "seed_milvus_live URL1 URI C n1 w0 = (Inr vs1, w1)"
    and "seed_milvus_live URL2 URI C n2 w1 = (Inr vs2, w2)"
  shows "\<exists>A idsA B idsB.
           web w0 URL1 = Inr A \<and> web w1 URL2 = Inr B \<and>
           length idsA = length A \<and> length idsB = length B \<and>
           new_calls w0 w1 =
             [Connect URI C False, AddDocuments URI C (map (assign_metadata n1) A) idsA] \<and>
           new_calls w1 w2 =
             [Connect URI C False, AddDocuments URI C (map (assign_metadata n2) B) idsB] \<and>
           collections w2 (URI, C) =
             Some (entries w0 (URI, C) @ zip idsA (map (assign_metadata n1) A) @
                   zip idsB (map (assign_metadata n2) B)) \<and>
           set (entries w2 (URI, C)) =
             set (entries w0 (URI, C)) \<union> set (zip idsA (map (assign_metadata n1) A)) \<union>
             set (zip idsB (map (assign_metadata n2) B))"
proof -
  from seed_milvus_live_success [OF assms(1)]
  obtain A where
    a: "web w0 URL1 = Inr A" and
    w1: "w1 = w0\<lparr>heap := (\<lambda>r. if next_ref w0 \<le> r \<and> r < next_ref w0 + length A
                               then assign_metadata n1 (A ! (r - next_ref w0)) else heap w0 r),
                  next_ref := next_ref w0 + length A,
                  uuid_drawn := uuid_drawn w0 + length A,
                  collections := (collections w0)((URI, C) \<mapsto> entries w0 (URI, C) @
                     zip (map (uuid_source w0) [uuid_drawn w0 ..< uuid_drawn w0 + length A])
                         (map (assign_metadata n1) A)),
                  calls := calls w0 @ [Connect URI C False,
                     AddDocuments URI C (map (assign_metadata n1) A)
                       (map (uuid_source w0) [uuid_drawn w0 ..< uuid_drawn w0 + length A])]\<rparr>"
    by blast
  from seed_milvus_live_success [OF assms(2)]
  obtain B where
    b: "web w1 URL2 = Inr B" and
    w2: "w2 = w1\<lparr>heap := (\<lambda>r. if next_ref w1 \<le> r \<and> r < next_ref w1 + length B
                               then assign_metadata n2 (B ! (r - next_ref w1)) else heap w1 r),
                  next_ref := next_ref w1 + length B,
                  uuid_drawn := uuid_drawn w1 + length B,
                  collections := (collections w1)((URI, C) \<mapsto> entries w1 (URI, C) @
                     zip (map (uuid_source w1) [uuid_drawn w1 ..< uuid_drawn w1 + length B])
                         (map (assign_metadata n2) B)),
                  calls := calls w1 @ [Connect URI C False,
                     AddDocuments URI C (map (assign_metadata n2) B)
                       (map (uuid_source w1) [uuid_drawn w1 ..< uuid_drawn w1 + length B])]\<rparr>"
    by blast
  let ?idsA = "map (uuid_source w0) [uuid_drawn w0 ..< uuid_drawn w0 + length A]"
  let ?idsB = "map (uuid_source w1) [uuid_drawn w1 ..< uuid_drawn w1 + length B]"
  have la: "length ?idsA = length A" and lb: "length ?idsB = length B"
    by simp_all
  have c1: "new_calls w0 w1 =
      [Connect URI C False, AddDocuments URI C (map (assign_metadata n1) A) ?idsA]"
    by (rule new_calls_append) (simp add: w1)
  have c2: "new_calls w1 w2 =
      [Connect URI C False, AddDocuments URI C (map (assign_metadata n2) B) ?idsB]"
    by (rule new_calls_append) (simp add: w2)
  have e1: "entries w1 (URI, C) = entries w0 (URI, C) @ zip ?idsA (map (assign_metadata n1) A)"
    by (rule entries_Some) (simp add: w1)
  have col: "collections w2 (URI, C) =
      Some (entries w0 (URI, C) @ zip ?idsA (map (assign_metadata n1) A) @
            zip ?idsB (map (assign_metadata n2) B))"
    by (simp add: w2 e1)
  have "set (entries w2 (URI, C)) =
      set (entries w0 (URI, C)) \<union> set (zip ?idsA (map (assign_metadata n1) A)) \<union>
      set (zip ?idsB (map (assign_metadata n2) B))"
    by (simp add: entries_Some [OF col] Un_assoc)
  with a b la lb c1 c2 col show ?thesis
    by blast
qed

theorem append_keeps_both_batches_witness:
  "seed_milvus_live ''https://www.stack-ai.com/docs'' ''http://localhost:19530'' ''data_test''
     ''stack-ai'' demo_world =
     (Inr \<lparr>uri = ''http://localhost:19530'', collection = ''data_test''\<rparr>, crawled_once) \<and>
   seed_milvus_live ''https://www.stack-ai.com/blog'' ''http://localhost:19530'' ''data_test''
     ''blog'' crawled_once =
     (Inr \<lparr>uri = ''http://localhost:19530'', collection = ''data_test''\<rparr>, crawled_twice) \<and>
   collections demo_world (''http://localhost:19530'', ''data_test'') = Some demo_old \<and>
   collections crawled_twice (''http://localhost:19530'', ''data_test'') =
     Some (demo_old @ [(demo_uuid 0, assign_metadata ''stack-ai'' demo_page),
                       (demo_uuid 1, assign_metadata ''stack-ai'' demo_blank),
                       (demo_uuid 2, assign_metadata ''blog'' demo_blank)]) \<and>
   (\<exists>A idsA B idsB.
      web demo_world ''https://www.stack-ai.com/docs'' = Inr A \<and>
      web crawled_once ''https://www.stack-ai.com/blog'' = Inr B \<and>
      length idsA = length A \<and> length idsB = length B \<and>
      collections crawled_twice (''http://localhost:19530'', ''data_test'') =
        Some (entries demo_world (''http://localhost:19530'', ''data_test'') @
              zip idsA (map (assign_metadata ''stack-ai'') A) @
              zip idsB (map (assign_metadata ''blog'') B)))"
  using append_keeps_both_batches [OF demo_crawl demo_crawl_again] demo_crawl demo_crawl_again
    demo_world_fields(8) crawled_twice_collection
  by blast

section \<open>The document name and the batch\<close>

lemma comprehension_doc_name:
  assumes "comprehension (make_document n) records = Inr documents"
  shows "\<forall>D \<in> set documents. map_of (metadata D) ''doc_name'' = Some (PStr n)"
proof
  fix D
  assume "D \<in> set documents"
  then obtain i where i: "i < length documents" "documents ! i = D"
    by (auto simp: in_set_conv_nth)
  with comprehension_length [OF assms] comprehension_nth [OF assms, of i]
  have "make_document n (records ! i) = Inr D"
    by simp
  then show "map_of (metadata D) ''doc_name'' = Some (PStr n)"
    by (rule make_document_doc_name)
qed

lemma assign_metadata_doc_name:
  "map_of (metadata (assign_metadata n D)) ''doc_name'' = Some (PStr n)"
  by (simp add: assign_metadata_def metadata_dict_doc_name)

text \<open>
  C5. Every document an ingestion call commits carries, under \<^verbatim>\<open>doc_name\<close>, the document
  name of that call (on the local path the name derived from the file name, on the live
  path the parameter), whatever the raw record held under that key; the documents are
  committed in the order of the input, the \<open>i\<close>-th one made from the \<open>i\<close>-th record.
\<close>

theorem doc_name_injected:
  "(seed_milvus URI C filename directory w = (Inr vs, w') \<longrightarrow>
      (\<exists>data doc_name records documents ids.
         load_data_from_local filename directory w = Inr (data, doc_name) \<and>
         py_iter data = Inr records \<and>
         new_calls w w' = [Connect URI C True, AddDocuments URI C documents ids] \<and>
         length documents = length records \<and>
         (\<forall>i < length records. make_document doc_name (records ! i) = Inr (documents ! i)) \<and>
         (\<forall>D \<in> set documents. map_of (metadata D) ''doc_name'' = Some (PStr doc_name)))) \<and>
   (seed_milvus_live URL URI C name w = (Inr vs, w') \<longrightarrow>
      (\<exists>crawled documents ids.
         web w URL = Inr crawled \<and>
         new_calls w w' = [Connect URI C False, AddDocuments URI C documents ids] \<and>
         length documents = length crawled \<and>
         (\<forall>i < length crawled. documents ! i = assign_metadata name (crawled ! i)) \<and>
         (\<forall>D \<in> set documents. map_of (metadata D) ''doc_name'' = Some (PStr name))))"
proof (intro conjI impI)
  assume run: "seed_milvus URI C filename directory w = (Inr vs, w')"
  from seed_milvus_success [OF run]
  obtain data dn records documents where
    l: "load_data_from_local filename directory w = Inr (data, dn)" and
    i: "py_iter data = Inr records" and
    c: "comprehension (make_document dn) records = Inr documents" and
    w': "w' = w\<lparr>uuid_drawn := uuid_drawn w + length documents,
                  collections := (collections w)((URI, C) \<mapsto>
                     zip (map (uuid_source w) [uuid_drawn w ..< uuid_drawn w + length documents])
                         documents),
                  calls := calls w @ [Connect URI C True,
                     AddDocuments URI C documents
                       (map (uuid_source w) [uuid_drawn w ..< uuid_drawn w + length documents])]\<rparr>"
    by blast
  have "new_calls w w' = [Connect URI C True, AddDocuments URI C documents
          (map (uuid_source w) [uuid_drawn w ..< uuid_drawn w + length documents])]"
    by (rule new_calls_append) (simp add: w')
  moreover have "length documents = length records"
    by (rule comprehension_length [OF c])
  moreover have "\<forall>i < length records. make_document dn (records ! i) = Inr (documents ! i)"
    using comprehension_nth [OF c] by blast
  moreover note comprehension_doc_name [OF c]
  ultimately show "\<exists>data doc_name records documents ids.
         load_data_from_local filename directory w = Inr (data, doc_name) \<and>
         py_iter data = Inr records \<and>
         new_calls w w' = [Connect URI C True, AddDocuments URI C documents ids] \<and>
         length documents = length records \<and>
         (\<forall>i < length records. make_document doc_name (records ! i) = Inr (documents ! i)) \<and>
         (\<forall>D \<in> set documents. map_of (metadata D) ''doc_name'' = Some (PStr doc_name))"
    using l i by blast
next
  assume run: "seed_milvus_live URL URI C name w = (Inr vs, w')"
  from seed_milvus_live_success [OF run]
  obtain docs where
    d: "web w URL = Inr docs" and
    w': "w' = w\<lparr>heap := (\<lambda>r. if next_ref w \<le> r \<and> r < next_ref w + length docs
                               then assign_metadata name (docs ! (r - next_ref w)) else heap w r),
                  next_ref := next_ref w + length docs,
                  uuid_drawn := uuid_drawn w + length docs,
                  collections := (collections w)((URI, C) \<mapsto> entries w (URI, C) @
                     zip (map (uuid_source w) [uuid_drawn w ..< uuid_drawn w + length docs])
                         (map (assign_metadata name) docs)),
                  calls := calls w @ [Connect URI C False,
                     AddDocuments URI C (map (assign_metadata name) docs)
                       (map (uuid_source w) [uuid_drawn w ..< uuid_drawn w + length docs])]\<rparr>"
    by blast
  have "new_calls w w' = [Connect URI C False, AddDocuments URI C (map (assign_metadata name) docs)
          (map (uuid_source w) [uuid_drawn w ..< uuid_drawn w + length docs])]"
    by (rule new_calls_append) (simp add: w')
  moreover have "length (map (assign_metadata name) docs) = length docs"
    by simp
  moreover have "\<forall>i < length docs. map (assign_metadata name) docs ! i = assign_metadata name (docs ! i)"
    by simp
  moreover have "\<forall>D \<in> set (map (assign_metadata name) docs).
      map_of (metadata D) ''doc_name'' = Some (PStr name)"
    by (auto simp: assign_metadata_doc_name)
  ultimately show "\<exists>crawled documents ids.
         web w URL = Inr crawled \<and>
         new_calls w w' = [Connect URI C False, AddDocuments URI C documents ids] \<and>
         length documents = length crawled \<and>
         (\<forall>i < length crawled. documents ! i = assign_metadata name (crawled ! i)) \<and>
         (\<forall>D \<in> set documents. map_of (metadata D) ''doc_name'' = Some (PStr name))"
    using d by blast
qed

theorem doc_name_injected_witness:
  "seed_milvus ''http://localhost:19530'' ''data_test'' ''stack_guide.json'' ''data_v3'' demo_world =
     (Inr \<lparr>uri = ''http://localhost:19530'', collection = ''data_test''\<rparr>, seeded_once) \<and>
   dict_get (metadata demo_doc_full) ''doc_name'' = PStr ''stack guide'' \<and>
   (\<exists>data doc_name records documents ids.
      load_data_from_local ''stack_guide.json'' ''data_v3'' demo_world = Inr (data, doc_name) \<and>
      py_iter data = Inr records \<and>
      new_calls demo_world seeded_once =
        [Connect ''http://localhost:19530'' ''data_test'' True,
         AddDocuments ''http://localhost:19530'' ''data_test'' documents ids] \<and>
      length documents = length records \<and>
      list_all (\<lambda>D. map_of (metadata D) ''doc_name'' = Some (PStr doc_name)) documents) \<and>
   seed_milvus_live ''https://www.stack-ai.com/docs'' ''http://localhost:19530'' ''data_test''
     ''stack-ai'' demo_world =
     (Inr \<lparr>uri = ''http://localhost:19530'', collection = ''data_test''\<rparr>, crawled_once) \<and>
   (\<exists>crawled documents ids.
      web demo_world ''https://www.stack-ai.com/docs'' = Inr crawled \<and>
      new_calls demo_world crawled_once =
        [Connect ''http://localhost:19530'' ''data_test'' False,
         AddDocuments ''http://localhost:19530'' ''data_test'' documents ids] \<and>
      length documents = length crawled \<and>
      list_all (\<lambda>D. map_of (metadata D) ''doc_name'' = Some (PStr ''stack-ai'')) documents)"
proof -
  have first: "seed_milvus ''http://localhost:19530'' ''data_test'' ''stack_guide.json''
      ''data_v3'' demo_world =
     (Inr \<lparr>uri = ''http://localhost:19530'', collection = ''data_test''\<rparr>, seeded_once)"
    by (simp add: demo_seed seeded_once_eq)
  have name: "dict_get (metadata demo_doc_full) ''doc_name'' = PStr ''stack guide''"
    by (simp add: demo_doc_full_def dict_get_def)
  from doc_name_injected [of "''http://localhost:19530''" "''data_test''" "''stack_guide.json''"
      "''data_v3''" demo_world "\<lparr>uri = ''http://localhost:19530'', collection = ''data_test''\<rparr>"
      seeded_once] first
  have local: "\<exists>data doc_name records documents ids.
      load_data_from_local ''stack_guide.json'' ''data_v3'' demo_world = Inr (data, doc_name) \<and>
      py_iter data = Inr records \<and>
      new_calls demo_world seeded_once =
        [Connect ''http://localhost:19530'' ''data_test'' True,
         AddDocuments ''http://localhost:19530'' ''data_test'' documents ids] \<and>
      length documents = length records \<and>
      list_all (\<lambda>D. map_of (metadata D) ''doc_name'' = Some (PStr doc_name)) documents"
    unfolding list_all_iff by blast
  from doc_name_injected [of "''http://localhost:19530''" "''data_test''" _ _ demo_world
      "\<lparr>uri = ''http://localhost:19530'', collection = ''data_test''\<rparr>"
      crawled_once "''https://www.stack-ai.com/docs''" "''stack-ai''"] demo_crawl
  have live: "\<exists>crawled documents ids.
      web demo_world ''https://www.stack-ai.com/docs'' = Inr crawled \<and>
      new_calls demo_world crawled_once =
        [Connect ''http://localhost:19530'' ''data_test'' False,
         AddDocuments ''http://localhost:19530'' ''data_test'' documents ids] \<and>
      length documents = length crawled \<and>
      list_all (\<lambda>D. map_of (metadata D) ''doc_name'' = Some (PStr ''stack-ai'')) documents"
    unfolding list_all_iff by blast
  from first name local demo_crawl live show ?thesis
    by blast
qed

section \<open>The commit precondition\<close>

text \<open>
  C10. Whatever an ingestion call does, every commit among the calls it makes to the index
  client has as many identifiers as documents; and a call that succeeds has made exactly
  one commit, after opening the collection, with one identifier per document (none for
  an empty batch).
\<close>

theorem commit_lengths_agree:
  "list_all balanced (new_calls w (snd (seed_milvus URI C f d w))) \<and>
   list_all balanced (new_calls w (snd (seed_milvus_live URL URI C n w))) \<and>
   (seed_milvus URI C f d w = (Inr vs, w') \<longrightarrow>
      (\<exists>documents ids. length ids = length documents \<and>
         new_calls w w' = [Connect URI C True, AddDocuments URI C documents ids])) \<and>
   (seed_milvus_live URL URI C n w = (Inr vs, w') \<longrightarrow>
      (\<exists>documents ids. length ids = length documents \<and>
         new_calls w w' = [Connect URI C False, AddDocuments URI C documents ids]))"
proof (intro conjI impI)
  show "list_all balanced (new_calls w (snd (seed_milvus URI C f d w)))"
    using seed_milvus_calls [of w URI C f d] by auto
  show "list_all balanced (new_calls w (snd (seed_milvus_live URL URI C n w)))"
    using seed_milvus_live_calls [of w URL URI C n] by auto
next
  assume run: "seed_milvus URI C f d w = (Inr vs, w')"
  from seed_milvus_success [OF run]
  obtain documents where
    "calls w' = calls w @ [Connect URI C True,
        AddDocuments URI C documents
          (map (uuid_source w) [uuid_drawn w ..< uuid_drawn w + length documents])]"
    by auto
  from new_calls_append [OF this]
  show "\<exists>documents ids. length ids = length documents \<and>
         new_calls w w' = [Connect URI C True, AddDocuments URI C documents ids]"
    by (intro exI [of _ documents]
          exI [of _ "map (uuid_source w) [uuid_drawn w ..< uuid_drawn w + length documents]"])
       simp
next
  assume run: "seed_milvus_live URL URI C n w = (Inr vs, w')"
  from seed_milvus_live_success [OF run]
  obtain docs where
    "calls w' = calls w @ [Connect URI C False,
        AddDocuments URI C (map (assign_metadata n) docs)
          (map (uuid_source w) [uuid_drawn w ..< uuid_drawn w + length docs])]"
    by auto
  from new_calls_append [OF this]
  show "\<exists>documents ids. length ids = length documents \<and>
         new_calls w w' = [Connect URI C False, AddDocuments URI C documents ids]"
    by (intro exI [of _ "map (assign_metadata n) docs"]
          exI [of _ "map (uuid_source w) [uuid_drawn w ..< uuid_drawn w + length docs]"])
       simp
qed

theorem commit_lengths_agree_witness:
  "seed_milvus ''http://localhost:19530'' ''data_test'' ''stack_guide.json'' ''data_v3'' demo_world =
     (Inr \<lparr>uri = ''http://localhost:19530'', collection = ''data_test''\<rparr>, seeded_once) \<and>
   new_calls demo_world seeded_once =
     [Connect ''http://localhost:19530'' ''data_test'' True,
      AddDocuments ''http://localhost:19530'' ''data_test''
        [demo_doc_full, demo_doc_bare ''stack guide''] [demo_uuid 0, demo_uuid 1]] \<and>
   (\<exists>documents ids. length ids = length documents \<and>
      new_calls demo_world seeded_once =
        [Connect ''http://localhost:19530'' ''data_test'' True,
         AddDocuments ''http://localhost:19530'' ''data_test'' documents ids]) \<and>
   list_all balanced (new_calls demo_world seeded_once) \<and>
   seed_milvus_live ''https://www.stack-ai.com/docs'' ''http://localhost:19530'' ''data_test''
     ''stack-ai'' demo_world =
     (Inr \<lparr>uri = ''http://localhost:19530'', collection = ''data_test''\<rparr>, crawled_once) \<and>
   (\<exists>documents ids. length ids = length documents \<and>
      new_calls demo_world crawled_once =
        [Connect ''http://localhost:19530'' ''data_test'' False,
         AddDocuments ''http://localhost:19530'' ''data_test'' documents ids]) \<and>
   list_all balanced (new_calls demo_world crawled_once)"
proof -
  have first: "seed_milvus ''http://localhost:19530'' ''data_test'' ''stack_guide.json''
      ''data_v3'' demo_world =
     (Inr \<lparr>uri = ''http://localhost:19530'', collection = ''data_test''\<rparr>, seeded_once)"
    by (simp add: demo_seed seeded_once_eq)
  have log: "new_calls demo_world seeded_once =
     [Connect ''http://localhost:19530'' ''data_test'' True,
      AddDocuments ''http://localhost:19530'' ''data_test''
        [demo_doc_full, demo_doc_bare ''stack guide''] [demo_uuid 0, demo_uuid 1]]"
    by (rule new_calls_append) (simp add: seeded_once_eq demo_world_fields)
  from commit_lengths_agree [of demo_world "''http://localhost:19530''" "''data_test''"
      "''stack_guide.json''" "''data_v3''" "''https://www.stack-ai.com/docs''" "''stack-ai''"
      "\<lparr>uri = ''http://localhost:19530'', collection = ''data_test''\<rparr>" seeded_once]
    first
  have local: "list_all balanced (new_calls demo_world seeded_once) \<and>
      (\<exists>documents ids. length ids = length documents \<and>
         new_calls demo_world seeded_once =
           [Connect ''http://localhost:19530'' ''data_test'' True,
            AddDocuments ''http://localhost:19530'' ''data_test'' documents ids])"
    unfolding seeded_once_def by blast
  from commit_lengths_agree [of demo_world "''http://localhost:19530''" "''data_test''"
      "''stack_guide.json''" "''data_v3''" "''https://www.stack-ai.com/docs''" "''stack-ai''"
      "\<lparr>uri = ''http://localhost:19530'', collection = ''data_test''\<rparr>" crawled_once]
    demo_crawl
  have live: "list_all balanced (new_calls demo_world crawled_once) \<and>
      (\<exists>documents ids. length ids = length documents \<and>
         new_calls demo_world crawled_once =
           [Connect ''http://localhost:19530'' ''data_test'' False,
            AddDocuments ''http://localhost:19530'' ''data_test'' documents ids])"
    unfolding crawled_once_def by blast
  from first log local demo_crawl live show ?thesis
    by blast
qed

section \<open>Failures before the index is touched\<close>

lemma normalizable_cases:
  assumes "normalizable x"
  shows "\<exists>d m. x = PDict d \<and> map_of d ''metadata'' = Some (PDict m) \<and> string_content d"
proof (cases x)
  case (PDict d)
  show ?thesis
  proof (cases "map_of d ''metadata''")
    case None
    with assms PDict show ?thesis
      by (simp add: normalizable_def)
  next
    case (Some v)
    with assms PDict show ?thesis
      by (cases v) (simp_all add: normalizable_def)
  qed
qed (use assms in \<open>simp_all add: normalizable_def\<close>)

lemma make_document_normalizable: "normalizable x \<Longrightarrow> \<exists>D. make_document n x = Inr D"
  by (auto dest!: normalizable_cases simp: make_document_Inr)

lemma make_document_not_normalizable:
  "\<not> normalizable x \<Longrightarrow>
     make_document n x = Inl AttributeError \<or> make_document n x = Inl KeyError \<or>
     make_document n x = Inl ValidationError"
proof (cases x)
  case (PDict d)
  assume ill: "\<not> normalizable x"
  show ?thesis
  proof (cases "map_of d ''metadata''")
    case None
    with PDict show ?thesis
      by (simp add: make_document_def)
  next
    case (Some v)
    show ?thesis
    proof (cases v)
      case (PDict m)
      with ill Some \<open>x = PDict d\<close> have "\<not> string_content d"
        by (simp add: normalizable_def)
      with Some PDict \<open>x = PDict d\<close> show ?thesis
        by (simp add: make_document_ValidationError)
    qed (use Some \<open>x = PDict d\<close> in \<open>simp_all add: make_document_def\<close>)
  qed
qed (simp_all add: make_document_def)

lemma comprehension_first_error:
  "list_all normalizable good \<Longrightarrow> make_document n x = Inl e \<Longrightarrow>
   comprehension (make_document n) (good @ x # rest) = Inl e"
proof (induction good)
  case Nil
  then show ?case by simp
next
  case (Cons g good)
  then have "normalizable g"
    by simp
  from make_document_normalizable [OF this, of n] Cons show ?case
    by auto
qed

lemma comprehension_not_normalizable:
  "\<not> list_all normalizable xs \<Longrightarrow>
     comprehension (make_document n) xs = Inl AttributeError \<or>
     comprehension (make_document n) xs = Inl KeyError \<or>
     comprehension (make_document n) xs = Inl ValidationError"
proof (induction xs)
  case Nil
  then show ?case by simp
next
  case (Cons x xs)
  show ?case
  proof (cases "normalizable x")
    case True
    with Cons.prems have "\<not> list_all normalizable xs"
      by simp
    from Cons.IH [OF this] make_document_normalizable [OF True, of n] show ?thesis
      by auto
  next
    case False
    from make_document_not_normalizable [OF this, of n] show ?thesis
      by auto
  qed
qed

lemma load_data_from_local_Inr:
  "files w (os_path_join d f) = Inr data \<Longrightarrow>
   load_data_from_local f d w =
     Inr (data, str_replace (hd (rsplit1 f CHR ''.'')) CHR ''_'' CHR '' '')"
  by (simp add: load_data_from_local_def)

lemma seed_milvus_comprehension_Inl:
  "load_data_from_local f d w = Inr (data, dn) \<Longrightarrow> py_iter data = Inr records \<Longrightarrow>
   comprehension (make_document dn) records = Inl e \<Longrightarrow>
   seed_milvus URI C f d w = (Inl e, w)"
  by (simp add: seed_milvus_def)

lemma seed_milvus_commit_refused:
  assumes "load_data_from_local f d w = Inr (data, dn)"
    and "py_iter data = Inr records"
    and "comprehension (make_document dn) records = Inr documents"
    and "reachable w URI"
    and "\<not> list_all conforms documents"
  shows "seed_milvus URI C f d w =
     (Inl CommitFailed,
      w\<lparr>uuid_drawn := uuid_drawn w + length documents,
        collections := (collections w)((URI, C) := None),
        calls := calls w @ [Connect URI C True,
           AddDocuments URI C documents
             (map (uuid_source w) [uuid_drawn w ..< uuid_drawn w + length documents])]\<rparr>)"
  using assms
  by (simp add: seed_milvus_def Milvus_def add_documents_def uuid4_strs_def Let_def)

lemma demo_object_run:
  "fst (seed_milvus ''http://localhost:19530'' ''data_test'' ''object.json'' ''data_v3''
          demo_world) =
     Inr \<lparr>uri = ''http://localhost:19530'', collection = ''data_test''\<rparr> \<and>
   new_calls demo_world
     (snd (seed_milvus ''http://localhost:19530'' ''data_test'' ''object.json'' ''data_v3''
             demo_world)) =
     [Connect ''http://localhost:19530'' ''data_test'' True,
      AddDocuments ''http://localhost:19530'' ''data_test'' [] []] \<and>
   entries
     (snd (seed_milvus ''http://localhost:19530'' ''data_test'' ''object.json'' ''data_v3''
             demo_world))
     (''http://localhost:19530'', ''data_test'') = []"
proof -
  have l: "load_data_from_local ''object.json'' ''data_v3'' demo_world = Inr (PDict [], ''object'')"
    by (simp add: load_data_from_local_def demo_world_fields demo_files_def rsplit1_def
          str_replace_def)
  have i: "py_iter (PDict []) = Inr []"
    by simp
  have c: "comprehension (make_document ''object'') [] = Inr []"
    by simp
  have "distinct (map (uuid_source demo_world)
      [uuid_drawn demo_world ..< uuid_drawn demo_world + length ([] :: Document list)])"
    and "list_all conforms []"
    by simp_all
  from seed_milvus_run [OF l i c demo_world_fields(3) this] show ?thesis
    by (simp add: new_calls_def entries_def)
qed

lemma demo_ill_typed_run:
  "fst (seed_milvus ''http://localhost:19530'' ''data_test'' ''bad_types.json'' ''data_v3''
          demo_world) = Inl CommitFailed \<and>
   new_calls demo_world
     (snd (seed_milvus ''http://localhost:19530'' ''data_test'' ''bad_types.json'' ''data_v3''
             demo_world)) =
     [Connect ''http://localhost:19530'' ''data_test'' True,
      AddDocuments ''http://localhost:19530'' ''data_test'' [demo_ill_typed_doc] [demo_uuid 0]] \<and>
   entries
     (snd (seed_milvus ''http://localhost:19530'' ''data_test'' ''bad_types.json'' ''data_v3''
             demo_world))
     (''http://localhost:19530'', ''data_test'') = []"
proof -
  have l: "load_data_from_local ''bad_types.json'' ''data_v3'' demo_world =
      Inr (PList [demo_ill_typed], ''bad types'')"
    by (simp add: load_data_from_local_def demo_world_fields demo_files_def rsplit1_def
          str_replace_def)
  have i: "py_iter (PList [demo_ill_typed]) = Inr [demo_ill_typed]"
    by simp
  have "make_document ''bad types'' demo_ill_typed = Inr demo_ill_typed_doc"
    by (simp add: make_document_def Document_init_def demo_ill_typed_def demo_ill_typed_doc_def
          metadata_dict_def dict_get_def py_or_def)
  then have c: "comprehension (make_document ''bad types'') [demo_ill_typed] =
      Inr [demo_ill_typed_doc]"
    by simp
  have ill: "\<not> list_all conforms [demo_ill_typed_doc]"
    by (simp add: conforms_def demo_ill_typed_doc_def dict_get_def)
  have "[0..<Suc 0] = [0]"
    by simp
  with seed_milvus_commit_refused [OF l i c demo_world_fields(3) ill] show ?thesis
    by (simp add: new_calls_def entries_def demo_world_fields)
qed

text \<open>
  C9, as stated, fails. A file whose content is the JSON object \<^verbatim>\<open>{}\<close> is not a sequence
  of records, yet the call does not fail: the loop over it finds no record, the collection
  is opened with \<^verbatim>\<open>drop_old=True\<close> and what it held is gone. A record whose title is a list
  and whose start index is a string is not of the record shape either; it passes the
  normalization, and the call fails only at the commit, after the collection was dropped.
\<close>

theorem malformed_source_counterexample:
  "files demo_world ''data_v3/object.json'' = Inr (PDict []) \<and>
   entries demo_world (''http://localhost:19530'', ''data_test'') = demo_old \<and>
   demo_old \<noteq> [] \<and>
   fst (seed_milvus ''http://localhost:19530'' ''data_test'' ''object.json'' ''data_v3''
          demo_world) =
     Inr \<lparr>uri = ''http://localhost:19530'', collection = ''data_test''\<rparr> \<and>
   new_calls demo_world
     (snd (seed_milvus ''http://localhost:19530'' ''data_test'' ''object.json'' ''data_v3''
             demo_world)) =
     [Connect ''http://localhost:19530'' ''data_test'' True,
      AddDocuments ''http://localhost:19530'' ''data_test'' [] []] \<and>
   entries
     (snd (seed_milvus ''http://localhost:19530'' ''data_test'' ''object.json'' ''data_v3''
             demo_world))
     (''http://localhost:19530'', ''data_test'') = [] \<and>
   files demo_world ''data_v3/bad_types.json'' = Inr (PList [demo_ill_typed]) \<and>
   fst (seed_milvus ''http://localhost:19530'' ''data_test'' ''bad_types.json'' ''data_v3''
          demo_world) = Inl CommitFailed \<and>
   new_calls demo_world
     (snd (seed_milvus ''http://localhost:19530'' ''data_test'' ''bad_types.json'' ''data_v3''
             demo_world)) =
     [Connect ''http://localhost:19530'' ''data_test'' True,
      AddDocuments ''http://localhost:19530'' ''data_test'' [demo_ill_typed_doc] [demo_uuid 0]] \<and>
   entries
     (snd (seed_milvus ''http://localhost:19530'' ''data_test'' ''bad_types.json'' ''data_v3''
             demo_world))
     (''http://localhost:19530'', ''data_test'') = []"
proof -
  have "files demo_world ''data_v3/object.json'' = Inr (PDict [])"
    and "files demo_world ''data_v3/bad_types.json'' = Inr (PList [demo_ill_typed])"
    and "entries demo_world (''http://localhost:19530'', ''data_test'') = demo_old"
    and "demo_old \<noteq> []"
    by (simp_all add: demo_world_fields demo_files_def entries_def demo_old_def)
  with demo_object_run demo_ill_typed_run show ?thesis
    by blast
qed

text \<open>
  C9, amended. When the file cannot be read or parsed, when the loaded value is not
  iterable, or when some element of it is not a mapping with a mapping under
  \<^verbatim>\<open>metadata\<close> and a content that is a string whenever it is present and truthy,
  \<^verbatim>\<open>seed_milvus\<close> fails with the exception raised at that point (that of \<^verbatim>\<open>open\<close> or
  \<^verbatim>\<open>json.load\<close>, \<open>TypeError\<close>, or the \<open>AttributeError\<close>, \<open>KeyError\<close> or validation error
  of the first such element) and leaves the world as it was: no call to the index client
  has been made.
\<close>

theorem malformed_source_aborts:
  "(files w (os_path_join d f) = Inl e \<longrightarrow> seed_milvus URI C f d w = (Inl e, w)) \<and>
   (files w (os_path_join d f) = Inr data \<and> py_iter data = Inl e \<longrightarrow>
      seed_milvus URI C f d w = (Inl e, w) \<and> e = TypeError) \<and>
   (files w (os_path_join d f) = Inr data \<and> py_iter data = Inr records \<and>
    \<not> list_all normalizable records \<longrightarrow>
      seed_milvus URI C f d w = (Inl AttributeError, w) \<or>
      seed_milvus URI C f d w = (Inl KeyError, w) \<or>
      seed_milvus URI C f d w = (Inl ValidationError, w)) \<and>
   (load_data_from_local f d w = Inr (data, doc_name) \<and> py_iter data = Inr (good @ x # rest) \<and>
    list_all normalizable good \<and> make_document doc_name x = Inl e \<longrightarrow>
      seed_milvus URI C f d w = (Inl e, w))"
proof (intro conjI impI)
  assume "files w (os_path_join d f) = Inl e"
  then show "seed_milvus URI C f d w = (Inl e, w)"
    by (simp add: seed_milvus_def load_data_from_local_def)
next
  assume a: "files w (os_path_join d f) = Inr data \<and> py_iter data = Inl e"
  then show "seed_milvus URI C f d w = (Inl e, w)"
    by (simp add: seed_milvus_def load_data_from_local_def)
  from a show "e = TypeError"
    by (cases data) auto
next
  assume a: "files w (os_path_join d f) = Inr data \<and> py_iter data = Inr records \<and>
    \<not> list_all normalizable records"
  then have l: "load_data_from_local f d w =
      Inr (data, str_replace (hd (rsplit1 f CHR ''.'')) CHR ''_'' CHR '' '')"
    and i: "py_iter data = Inr records" and ill: "\<not> list_all normalizable records"
    by (simp_all add: load_data_from_local_Inr)
  from comprehension_not_normalizable [OF ill,
      of "str_replace (hd (rsplit1 f CHR ''.'')) CHR ''_'' CHR '' ''"]
  show "seed_milvus URI C f d w = (Inl AttributeError, w) \<or>
        seed_milvus URI C f d w = (Inl KeyError, w) \<or>
        seed_milvus URI C f d w = (Inl ValidationError, w)"
    using seed_milvus_comprehension_Inl [OF l i] by blast
next
  assume a: "load_data_from_local f d w = Inr (data, doc_name) \<and>
    py_iter data = Inr (good @ x # rest) \<and>
    list_all normalizable good \<and> make_document doc_name x = Inl e"
  then have "comprehension (make_document doc_name) (good @ x # rest) = Inl e"
    by (simp add: comprehension_first_error)
  with a show "seed_milvus URI C f d w = (Inl e, w)"
    by (simp add: seed_milvus_comprehension_Inl)
qed

theorem malformed_source_aborts_witness:
  "files demo_world (os_path_join ''data_v3'' ''missing.json'') = Inl OSError \<and>
   seed_milvus ''http://localhost:19530'' ''data_test'' ''missing.json'' ''data_v3'' demo_world =
     (Inl OSError, demo_world) \<and>
   files demo_world (os_path_join ''data_v3'' ''number.json'') = Inr (PInt 5) \<and>
   py_iter (PInt 5) = Inl TypeError \<and>
   seed_milvus ''http://localhost:19530'' ''data_test'' ''number.json'' ''data_v3'' demo_world =
     (Inl TypeError, demo_world) \<and>
   load_data_from_local ''no_metadata.json'' ''data_v3'' demo_world =
     Inr (PList [demo_bare, PDict [(''page_content'', PStr ''text only'')]], ''no metadata'') \<and>
   list_all normalizable [demo_bare] \<and>
   make_document ''no metadata'' (PDict [(''page_content'', PStr ''text only'')]) = Inl KeyError \<and>
   seed_milvus ''http://localhost:19530'' ''data_test'' ''no_metadata.json'' ''data_v3'' demo_world =
     (Inl KeyError, demo_world) \<and>
   load_data_from_local ''bad_content.json'' ''data_v3'' demo_world =
     Inr (PList [PDict [(''page_content'', PInt 5), (''metadata'', PDict [])],
                 PDict [(''page_content'', PStr ''text only'')]], ''bad content'') \<and>
   \<not> list_all normalizable [PDict [(''page_content'', PInt 5), (''metadata'', PDict [])],
                             PDict [(''page_content'', PStr ''text only'')]] \<and>
   make_document ''bad content'' (PDict [(''page_content'', PInt 5), (''metadata'', PDict [])]) =
     Inl ValidationError \<and>
   seed_milvus ''http://localhost:19530'' ''data_test'' ''bad_content.json'' ''data_v3'' demo_world =
     (Inl ValidationError, demo_world)"
proof -
  have f1: "files demo_world (os_path_join ''data_v3'' ''missing.json'') = Inl OSError"
    by (simp add: demo_world_fields demo_files_def)
  have f2: "files demo_world (os_path_join ''data_v3'' ''number.json'') = Inr (PInt 5)"
    by (simp add: demo_world_fields demo_files_def)
  have l3: "load_data_from_local ''no_metadata.json'' ''data_v3'' demo_world =
     Inr (PList [demo_bare, PDict [(''page_content'', PStr ''text only'')]], ''no metadata'')"
    by (simp add: load_data_from_local_def demo_world_fields demo_files_def rsplit1_def
          str_replace_def)
  have l4: "load_data_from_local ''bad_content.json'' ''data_v3'' demo_world =
     Inr (PList [PDict [(''page_content'', PInt 5), (''metadata'', PDict [])],
                 PDict [(''page_content'', PStr ''text only'')]], ''bad content'')"
    by (simp add: load_data_from_local_def demo_world_fields demo_files_def rsplit1_def
          str_replace_def)
  have good: "list_all normalizable [demo_bare]"
    by (simp add: normalizable_def demo_bare_def string_content_def)
  have bad: "\<not> list_all normalizable [PDict [(''page_content'', PInt 5), (''metadata'', PDict [])],
                                      PDict [(''page_content'', PStr ''text only'')]]"
    by (simp add: normalizable_def string_content_def)
  have k: "make_document ''no metadata'' (PDict [(''page_content'', PStr ''text only'')]) =
      Inl KeyError"
    by (simp add: make_document_def)
  have v: "make_document ''bad content''
      (PDict [(''page_content'', PInt 5), (''metadata'', PDict [])]) = Inl ValidationError"
    by (simp add: make_document_def Document_init_def dict_get_def py_or_def)
  have r1: "seed_milvus ''http://localhost:19530'' ''data_test'' ''missing.json'' ''data_v3''
      demo_world = (Inl OSError, demo_world)"
    using malformed_source_aborts [of demo_world "''data_v3''" "''missing.json''" OSError] f1
    by blast
  have r2: "seed_milvus ''http://localhost:19530'' ''data_test'' ''number.json'' ''data_v3''
      demo_world = (Inl TypeError, demo_world)"
    using malformed_source_aborts [of demo_world "''data_v3''" "''number.json''" TypeError
        "''http://localhost:19530''" "''data_test''" "PInt 5"] f2
    by simp
  have r3: "seed_milvus ''http://localhost:19530'' ''data_test'' ''no_metadata.json'' ''data_v3''
      demo_world = (Inl KeyError, demo_world)"
    using malformed_source_aborts [of demo_world "''data_v3''" "''no_metadata.json''" KeyError
        "''http://localhost:19530''" "''data_test''"
        "PList [demo_bare, PDict [(''page_content'', PStr ''text only'')]]" _
        "''no metadata''" "[demo_bare]" "PDict [(''page_content'', PStr ''text only'')]" "[]"]
      l3 good k
    by simp
  have r4: "seed_milvus ''http://localhost:19530'' ''data_test'' ''bad_content.json'' ''data_v3''
      demo_world = (Inl ValidationError, demo_world)"
    using malformed_source_aborts [of demo_world "''data_v3''" "''bad_content.json''"
        ValidationError "''http://localhost:19530''" "''data_test''"
        "PList [PDict [(''page_content'', PInt 5), (''metadata'', PDict [])],
                PDict [(''page_content'', PStr ''text only'')]]" _
        "''bad content''" "[]" "PDict [(''page_content'', PInt 5), (''metadata'', PDict [])]"
        "[PDict [(''page_content'', PStr ''text only'')]]"]
      l4 v
    by simp
  have "py_iter (PInt 5) = Inl TypeError"
    by simp
  with f1 f2 l3 l4 good bad k v r1 r2 r3 r4 show ?thesis
    by blast
qed

section \<open>Connecting to a collection\<close>

text \<open>
  C4, as stated, fails: \<^verbatim>\<open>connect_to_milvus\<close> on a collection that was never created
  returns a handle; it does not fail with \<open>CollectionNotFound\<close>.
\<close>

theorem connect_missing_counterexample:
  "collections demo_world (''http://localhost:19530'', ''never_created'') = None \<and>
   fst (connect_to_milvus ''http://localhost:19530'' ''never_created'' demo_world) =
     Inr \<lparr>uri = ''http://localhost:19530'', collection = ''never_created''\<rparr> \<and>
   fst (connect_to_milvus ''http://localhost:19530'' ''never_created'' demo_world) \<noteq>
     Inl CollectionNotFound"
  by (simp add: connect_to_milvus_def Milvus_def Let_def demo_world_def)

text \<open>
  C4, amended. \<^verbatim>\<open>connect_to_milvus\<close> makes the constructor call of the live-crawl path
  (no \<^verbatim>\<open>drop_old\<close>) and nothing else: whether or not the collection exists it returns a
  handle when the endpoint answers and fails with \<open>ConnectionError\<close> when it does not,
  never with \<open>CollectionNotFound\<close>; it performs no write: every collection, existing or
  not, is as it was, and the one call made is the constructor's.
\<close>

theorem connect_opens_without_writing:
  "connect_to_milvus URI C w = Milvus URI C False w \<and>
   fst (connect_to_milvus URI C w) =
     (if reachable w URI then Inr \<lparr>uri = URI, collection = C\<rparr> else Inl ConnectionError) \<and>
   fst (connect_to_milvus URI C w) \<noteq> Inl CollectionNotFound \<and>
   snd (connect_to_milvus URI C w) = w\<lparr>calls := calls w @ [Connect URI C False]\<rparr> \<and>
   collections (snd (connect_to_milvus URI C w)) = collections w \<and>
   new_calls w (snd (connect_to_milvus URI C w)) = [Connect URI C False]"
  by (simp add: connect_to_milvus_def Milvus_def Let_def new_calls_def)

section \<open>Identifiers\<close>











section \<open>What normalization changes\<close>

lemma seed_milvus_heap: "heap (snd (seed_milvus URI C f d w)) = heap w"
  by (auto simp: seed_milvus_def Milvus_def add_documents_def uuid4_strs_def Let_def
        split: sum.splits prod.splits)

lemma demo_crawl_web:
  "fst (crawl_web ''https://www.stack-ai.com/docs'' demo_world) = Inr [0, Suc 0]"
  "heap (snd (crawl_web ''https://www.stack-ai.com/docs'' demo_world)) 0 = demo_page"
  by (simp_all add: crawl_web_def demo_world_fields demo_web_def upt_0_2)

lemma crawled_once_heap: "heap crawled_once 0 = assign_metadata ''stack-ai'' demo_page"
proof -
  have docs: "web demo_world ''https://www.stack-ai.com/docs'' = Inr [demo_page, demo_blank]"
    by (simp add: demo_world_fields demo_web_def)
  show ?thesis
    by (simp add: crawled_once_def seed_milvus_live_run [OF docs demo_world_fields(3) demo_crawl_checks]
          demo_world_fields)
qed

text \<open>
  C8, as stated, fails on the live path: the loop assigns to the \<^verbatim>\<open>metadata\<close> attribute
  of the crawled object itself. The object the crawler returned at address 0 has, after
  the call, another metadata mapping, and the key \<^verbatim>\<open>viewport\<close> it held is gone.
\<close>

theorem normalization_pure_counterexample:
  "fst (crawl_web ''https://www.stack-ai.com/docs'' demo_world) = Inr [0, Suc 0] \<and>
   heap (snd (crawl_web ''https://www.stack-ai.com/docs'' demo_world)) 0 = demo_page \<and>
   heap crawled_once 0 \<noteq> demo_page \<and>
   dict_get (metadata demo_page) ''viewport'' = PStr ''width=device-width'' \<and>
   dict_get (metadata (heap crawled_once 0)) ''viewport'' = PNone"
  by (simp add: demo_crawl_web crawled_once_heap assign_metadata_def metadata_dict_def
        demo_page_def dict_get_def)

text \<open>
  C8, amended. On the local path normalization builds new documents and assigns to no
  stored object. On the live path it works in place: every crawled object of the list has
  its \<^verbatim>\<open>metadata\<close> attribute replaced by the canonical mapping built from the one it had
  (so keys outside the schema are dropped), its content is kept, and no object outside
  the list is touched; an object is left as it was exactly when its metadata already was
  that mapping.
\<close>

theorem normalization_effects:
  "heap (snd (seed_milvus URI C f d w)) = heap w \<and>
   (r \<notin> set documents \<longrightarrow> update_metadata n documents h r = h r) \<and>
   (r \<in> set documents \<longrightarrow>
      update_metadata n documents h r = (h r)\<lparr>metadata := metadata_dict n (metadata (h r))\<rparr> \<and>
      (update_metadata n documents h r = h r) =
        (metadata (h r) = metadata_dict n (metadata (h r)))) \<and>
   page_content (update_metadata n documents h r) = page_content (h r)"
proof -
  have "((h r)\<lparr>metadata := metadata_dict n (metadata (h r))\<rparr> = h r) =
      (metadata (h r) = metadata_dict n (metadata (h r)))"
    by (cases "h r") auto
  then show ?thesis
    by (simp add: seed_milvus_heap update_metadata_apply assign_metadata_def)
qed

theorem normalization_effects_witness:
  "(0::nat) \<in> set [0] \<and> (1::nat) \<notin> set [0] \<and>
   update_metadata ''stack-ai'' [0] (\<lambda>r. demo_page) 0 =
     demo_page\<lparr>metadata := metadata_dict ''stack-ai'' (metadata demo_page)\<rparr> \<and>
   update_metadata ''stack-ai'' [0] (\<lambda>r. demo_page) 1 = demo_page \<and>
   page_content (update_metadata ''stack-ai'' [0] (\<lambda>r. demo_page) 0) = PStr ''Welcome''"
proof -
  from normalization_effects [of _ _ _ _ _ 0 "[0]" "''stack-ai''" "\<lambda>r. demo_page"]
  have a: "update_metadata ''stack-ai'' [0] (\<lambda>r. demo_page) 0 =
     demo_page\<lparr>metadata := metadata_dict ''stack-ai'' (metadata demo_page)\<rparr>"
    and c: "page_content (update_metadata ''stack-ai'' [0] (\<lambda>r. demo_page) 0) =
      page_content demo_page"
    by simp_all
  from normalization_effects [of _ _ _ _ _ 1 "[0]" "''stack-ai''" "\<lambda>r. demo_page"]
  have b: "update_metadata ''stack-ai'' [0] (\<lambda>r. demo_page) 1 = demo_page"
    by simp
  have "page_content demo_page = PStr ''Welcome''"
    by (simp add: demo_page_def)
  with a b c show ?thesis
    by simp
qed

end
